theory Spec2Isabelle
  imports Main "HOL-Library.Word"
begin

section \<open>Arbitrary-precision integers\<close>

text \<open>
  The source computes with Go's \<^verbatim>\<open>*big.Int\<close>.  Values are modelled as \<^typ>\<open>int\<close>; a pointer
  that may be \<^verbatim>\<open>nil\<close> is an \<^typ>\<open>int option\<close>.  The division operations follow the standard
  library: \<^verbatim>\<open>QuoRem\<close> truncates towards zero, \<^verbatim>\<open>Div\<close> and \<^verbatim>\<open>DivMod\<close> correct the truncated
  result to Euclidean division, and a zero divisor panics.
\<close>

definition big_QuoRem :: "int \<Rightarrow> int \<Rightarrow> int \<times> int" where
  "big_QuoRem x y = (let q = sgn x * sgn y * (\<bar>x\<bar> div \<bar>y\<bar>) in (q, x - y * q))"

text \<open>\<^verbatim>\<open>z.Div(x, y)\<close>; every call site of the source divides by a nonzero constant.\<close>

definition big_Div :: "int \<Rightarrow> int \<Rightarrow> int" where
  "big_Div x y =
     (let (q, r) = big_QuoRem x y
      in if r < 0 then (if y < 0 then q + 1 else q - 1) else q)"

text \<open>\<^verbatim>\<open>z.DivMod(x, y, m)\<close>; \<open>None\<close> is the division-by-zero panic.\<close>

definition big_DivMod :: "int \<Rightarrow> int \<Rightarrow> (int \<times> int) option" where
  "big_DivMod x y =
     (if y = 0 then None
      else let (q, m) = big_QuoRem x y
           in if m < 0 then (if y < 0 then Some (q + 1, m - y) else Some (q - 1, m + y))
              else Some (q, m))"

section \<open>Data model\<close>

type_synonym address = "160 word"
type_synonym hash = "256 word"

text \<open>The fields of a header that the processor reads.\<close>

record Header =
  Number :: int
  Coinbase :: address
  GasLimit :: int

record Log =
  log_Address :: address
  log_Topics :: "hash list"
  log_Data :: "8 word list"

text \<open>
  The state database.  The processor uses four of its operations: the balance credit, the
  tagging of the log-recording context, the retrieval of the logs of a transaction and
  the intermediate root.  The balances, the recorded logs and the recording context are
  fields; everything else the execution engine keeps (nonces, code, storage) is \<open>rest\<close>.
\<close>

record 's StateDB =
  balances :: "address \<Rightarrow> int"
  recorded :: "hash \<Rightarrow> Log list"
  thash :: hash
  bhash :: hash
  txIndex :: nat
  rest :: 's

text \<open>
  Modelled from the spec: \<^verbatim>\<open>StateDB.AddBalance\<close> is not part of the source file; the spec
  describes it as the balance-credit operation keyed by address and amount.
\<close>

definition AddBalance :: "'s StateDB \<Rightarrow> address \<Rightarrow> int \<Rightarrow> 's StateDB" where
  "AddBalance statedb addr amount =
     statedb\<lparr>balances := (balances statedb)(addr := balances statedb addr + amount)\<rparr>"

section \<open>Reward engine\<close>

definition MaximumBlockReward :: int where
  "MaximumBlockReward = 5000000000000000000"

definition big8 :: int where
  "big8 = 8"

definition big32 :: int where
  "big32 = 32"

text \<open>
  The body of the loop over the uncles.  The loop state is the accumulated \<open>reward\<close> and
  the state database; the scratch value \<open>r\<close> is overwritten in each step as in the source.
\<close>

fun uncle_rewards :: "Header \<Rightarrow> Header list \<Rightarrow> int \<times> 's StateDB \<Rightarrow> int \<times> 's StateDB" where
  "uncle_rewards header [] (reward, statedb) = (reward, statedb)"
| "uncle_rewards header (uncle # uncles) (reward, statedb) =
     (let r = Number uncle + big8;
          r = r - Number header;
          r = r * MaximumBlockReward;
          r = big_Div r big8;
          statedb = AddBalance statedb (Coinbase uncle) r;
          r = big_Div MaximumBlockReward big32;
          reward = reward + r
      in uncle_rewards header uncles (reward, statedb))"

definition AccumulateRewards :: "'s StateDB \<Rightarrow> Header \<Rightarrow> Header list \<Rightarrow> 's StateDB" where
  "AccumulateRewards statedb header uncles =
     (let (reward, statedb) = uncle_rewards header uncles (MaximumBlockReward, statedb)
      in AddBalance statedb (Coinbase header) reward)"

section \<open>Era classification\<close>

text \<open>The constant \<^verbatim>\<open>common.Big1\<close>.\<close>

definition Big1 :: int where
  "Big1 = 1"

definition getBlockEra :: "int \<Rightarrow> int \<Rightarrow> int option" where
  "getBlockEra blockNum eraLength =
     (case big_DivMod blockNum eraLength of
        None \<Rightarrow> None
      | Some (_, m) \<Rightarrow> Some (m + Big1))"

section \<open>Transactions, receipts and blocks\<close>

text \<open>
  Signature schemes are opaque to the processor: it obtains one from the chain
  configuration and binds it to the transaction.  A scheme is identified by a number.
\<close>

type_synonym Signer = nat

text \<open>
  A transaction, with the values its accessor methods return as fields.  \<open>tx_To = None\<close>
  is the absent recipient; \<open>tx_signer\<close> is the scheme bound by \<^verbatim>\<open>SetSigner\<close>.
\<close>

record Transaction =
  tx_Nonce :: "64 word"
  tx_GasPrice :: int
  tx_Gas :: int
  tx_To :: "address option"
  tx_Value :: int
  tx_Data :: "8 word list"
  tx_Protected :: bool
  tx_ChainId :: int
  tx_Hash :: hash
  tx_signer :: "Signer option"

record Receipt =
  PostState :: "8 word list"
  CumulativeGasUsed :: int
  Bloom :: "2048 word"
  TxHash :: hash
  ContractAddress :: address
  Logs :: "Log list"
  GasUsed :: int

record Block =
  block_Header :: Header
  block_Transactions :: "Transaction list"
  block_Uncles :: "Header list"
  block_Hash :: hash

text \<open>
  Modelled from the spec: \<^verbatim>\<open>types.NewReceipt\<close> is not part of the source file.  The spec
  describes a receipt as carrying the post-transaction state commitment and the gas
  used up to and including its transaction, so the receipt keeps the values the two
  arguments have at the call; the other fields start at their zero values.
\<close>

definition NewReceipt :: "8 word list \<Rightarrow> int \<Rightarrow> Receipt" where
  "NewReceipt root cumulativeGasUsed =
     \<lparr>PostState = root, CumulativeGasUsed = cumulativeGasUsed, Bloom = 0, TxHash = 0,
      ContractAddress = 0, Logs = [], GasUsed = 0\<rparr>"

text \<open>
  Modelled from the spec: \<^verbatim>\<open>StateDB.StartRecord\<close> is not part of the source file; the spec
  describes it as tagging the log-recording context with the transaction hash, the block
  hash and the index of the transaction.
\<close>

definition StartRecord :: "'s StateDB \<Rightarrow> hash \<Rightarrow> hash \<Rightarrow> nat \<Rightarrow> 's StateDB" where
  "StartRecord statedb th bh ti = statedb\<lparr>thash := th, bhash := bh, txIndex := ti\<rparr>"

text \<open>
  Modelled from the spec: \<^verbatim>\<open>StateDB.GetLogs\<close> is not part of the source file; the spec
  describes it as the retrieval of the logs recorded for a transaction hash.
\<close>

definition GetLogs :: "'s StateDB \<Rightarrow> hash \<Rightarrow> Log list" where
  "GetLogs statedb h = recorded statedb h"

text \<open>
  Modelled from the spec: \<^verbatim>\<open>MessageCreatesContract\<close> is not part of the source file; the
  spec says that a transaction without recipient is a contract creation.
\<close>

definition MessageCreatesContract :: "Transaction \<Rightarrow> bool" where
  "MessageCreatesContract tx = (tx_To tx = None)"

text \<open>The 32 bytes of a hash, most significant first (\<^verbatim>\<open>Hash.Bytes\<close>).\<close>

definition Bytes :: "hash \<Rightarrow> 8 word list" where
  "Bytes h = map (\<lambda>i. ucast (drop_bit (8 * (31 - i)) h)) [0..<32]"

section \<open>Chain configuration and external collaborators\<close>

text \<open>
  A fork feature carries named parameters; \<open>GetBigInt\<close> returns the integer stored under
  a name, \<open>None\<close> standing for the result \<^verbatim>\<open>(nil, false)\<close>.
\<close>

type_synonym ForkFeature = "string \<rightharpoonup> int"

definition GetBigInt :: "ForkFeature \<Rightarrow> string \<Rightarrow> int option" where
  "GetBigInt feat name = feat name"

text \<open>
  The chain configuration is not part of the source file; the three methods the
  processor calls are taken as parameters.  \<open>GetFeature\<close> returns the feature found for a
  block number and a rule name, and whether the rule is configured (the fork it also
  returns is ignored by the processor).
\<close>

record ChainConfig =
  GetFeature :: "int \<Rightarrow> string \<Rightarrow> ForkFeature \<times> bool"
  GetChainID :: int
  GetSigner :: "int \<Rightarrow> Signer"

text \<open>
  The collaborators outside the processor, as parameters: the execution engine
  (\<^verbatim>\<open>ApplyMessage\<close> on the environment built from the state, the configuration, the chain,
  the transaction and the header), which reports the gas consumed or an error of type
  \<open>'e\<close> and leaves the state and the gas pool as it changed them; the intermediate root of
  the state; the recovery of the sender, which returns an address and possibly an error;
  the address derivation; the bloom filter of a receipt list.
\<close>

record ('s, 'e) Collaborators =
  ApplyMessage :: "'s StateDB \<Rightarrow> Header \<Rightarrow> Transaction \<Rightarrow> int \<Rightarrow> ('e + int) \<times> 's StateDB \<times> int"
  IntermediateRoot :: "'s StateDB \<Rightarrow> hash \<times> 's StateDB"
  From :: "Transaction \<Rightarrow> address \<times> 'e option"
  CreateAddress :: "address \<Rightarrow> 64 word \<Rightarrow> address"
  CreateBloom :: "Receipt list \<Rightarrow> 2048 word"

section \<open>Transaction applier\<close>

text \<open>
  \<open>ApplyTransaction\<close> mutates the gas pool, the state and the running total \<open>usedGas\<close>
  through pointers; the model returns the three next to the result.  On an error of the
  engine the running total is untouched.
\<close>

definition ApplyTransaction ::
  "('s, 'e) Collaborators \<Rightarrow> ChainConfig \<Rightarrow> int \<Rightarrow> 's StateDB \<Rightarrow> Header \<Rightarrow> Transaction \<Rightarrow> int \<Rightarrow>
     ('e + Receipt \<times> Log list \<times> int) \<times> int \<times> 's StateDB \<times> int" where
  "ApplyTransaction ext config gp statedb header tx usedGas =
     (let tx = tx\<lparr>tx_signer := Some (GetSigner config (Number header))\<rparr>;
          (res, statedb, gp) = ApplyMessage ext statedb header tx gp
      in case res of
           Inl err \<Rightarrow> (Inl err, gp, statedb, usedGas)
         | Inr gas \<Rightarrow>
             (let usedGas = usedGas + gas;
                  (root, statedb) = IntermediateRoot ext statedb;
                  receipt = NewReceipt (Bytes root) usedGas;
                  receipt = receipt\<lparr>TxHash := tx_Hash tx\<rparr>;
                  receipt = receipt\<lparr>GasUsed := gas\<rparr>;
                  receipt =
                    (if MessageCreatesContract tx
                     then (let from = fst (From ext tx)
                           in receipt\<lparr>ContractAddress := CreateAddress ext from (tx_Nonce tx)\<rparr>)
                     else receipt);
                  logs = GetLogs statedb (tx_Hash tx);
                  receipt = receipt\<lparr>Logs := logs\<rparr>;
                  receipt = receipt\<lparr>Bloom := CreateBloom ext [receipt]\<rparr>
              in (Inr (receipt, logs, gas), gp, statedb, usedGas)))"

section \<open>State processor\<close>

text \<open>
  The errors \<open>Process\<close> returns: the two it builds itself, with the values their messages
  print, and the errors of the transaction applier, passed on unchanged.
\<close>

datatype 'e error =
    ChainIdNotSet int int
  | InvalidChainId int int
  | Execution 'e

text \<open>
  The local variables of the loop of \<open>Process\<close>: \<open>(receipts, allLogs, totalUsedGas, gp,
  statedb)\<close>.  An early return inside the loop is \<open>Inl (gas, err, statedb)\<close>: the gas value
  returned (\<open>None\<close> is \<^verbatim>\<open>nil\<close>), the error, and the state as mutated so far; the receipts
  and logs returned with it are \<^verbatim>\<open>nil\<close>.
\<close>

type_synonym 's loop_state = "Receipt list \<times> Log list \<times> int \<times> int \<times> 's StateDB"

type_synonym ('s, 'e) abort = "int option \<times> 'e error \<times> 's StateDB"

text \<open>The check of a protected transaction (the body of \<^verbatim>\<open>if tx.Protected()\<close>).\<close>

definition check_protected :: "ChainConfig \<Rightarrow> Block \<Rightarrow> Transaction \<Rightarrow> 'e error option" where
  "check_protected config block tx =
     (if tx_Protected tx
      then (let (feat, configured) = GetFeature config (Number (block_Header block)) ''eip155''
            in case GetBigInt feat ''chainID'' of
                 None \<Rightarrow> Some (ChainIdNotSet (Number (block_Header block)) (tx_ChainId tx))
               | Some chainId \<Rightarrow>
                   if \<not> configured
                   then Some (ChainIdNotSet (Number (block_Header block)) (tx_ChainId tx))
                   else if tx_ChainId tx \<noteq> chainId
                   then Some (InvalidChainId (GetChainID config) (tx_ChainId tx))
                   else None)
      else None)"

text \<open>One iteration of the loop over the transactions.\<close>

definition process_tx ::
  "('s, 'e) Collaborators \<Rightarrow> ChainConfig \<Rightarrow> Block \<Rightarrow> nat \<Rightarrow> Transaction \<Rightarrow> 's loop_state \<Rightarrow>
     ('s, 'e) abort + 's loop_state" where
  "process_tx ext config block i tx = (\<lambda>(receipts, allLogs, totalUsedGas, gp, statedb).
     case check_protected config block tx of
       Some err \<Rightarrow> Inl (None, err, statedb)
     | None \<Rightarrow>
         (let statedb = StartRecord statedb (tx_Hash tx) (block_Hash block) i;
              (res, gp, statedb, totalUsedGas) =
                 ApplyTransaction ext config gp statedb (block_Header block) tx totalUsedGas
          in case res of
               Inl err \<Rightarrow> Inl (Some totalUsedGas, Execution err, statedb)
             | Inr (receipt, logs, _) \<Rightarrow>
                 Inr (receipts @ [receipt], allLogs @ logs, totalUsedGas, gp, statedb)))"

fun process_txs ::
  "('s, 'e) Collaborators \<Rightarrow> ChainConfig \<Rightarrow> Block \<Rightarrow> nat \<Rightarrow> Transaction list \<Rightarrow> 's loop_state \<Rightarrow>
     ('s, 'e) abort + 's loop_state" where
  "process_txs ext config block i [] vars = Inr vars"
| "process_txs ext config block i (tx # txs) vars =
     (case process_tx ext config block i tx vars of
        Inl a \<Rightarrow> Inl a
      | Inr vars' \<Rightarrow> process_txs ext config block (Suc i) txs vars')"

text \<open>
  \<open>Process\<close> returns \<open>(receipts, logs, gas used, error)\<close> and leaves the state mutated; the
  model returns the state as the second component.
\<close>

definition Process ::
  "('s, 'e) Collaborators \<Rightarrow> ChainConfig \<Rightarrow> Block \<Rightarrow> 's StateDB \<Rightarrow>
     (Receipt list \<times> Log list \<times> int option \<times> 'e error option) \<times> 's StateDB" where
  "Process ext config block statedb =
     (let gp = 0 + GasLimit (block_Header block)
      in case process_txs ext config block 0 (block_Transactions block) ([], [], 0, gp, statedb) of
           Inl (gas, err, statedb) \<Rightarrow> (([], [], gas, Some err), statedb)
         | Inr (receipts, allLogs, totalUsedGas, gp, statedb) \<Rightarrow>
             (let statedb = AccumulateRewards statedb (block_Header block) (block_Uncles block)
              in ((receipts, allLogs, Some totalUsedGas, None), statedb)))"

section \<open>A sample chain\<close>

text \<open>
  A small configuration, engine and state on which the model is evaluated.  The rule
  \<open>eip155\<close> is configured from block 10 on with chain identifier 61.  The engine consumes
  the whole gas limit of a transaction and fails when the pool holds less.
\<close>

definition sample_config :: ChainConfig where
  "sample_config =
     \<lparr>GetFeature = (\<lambda>n name. if name = ''eip155'' \<and> 10 \<le> n
                                then ([''chainID'' \<mapsto> 61], True) else (Map.empty, False)),
      GetChainID = 61,
      GetSigner = (\<lambda>n. if 10 \<le> n then 1 else 0)\<rparr>"

definition sample_ext :: "(unit, string) Collaborators" where
  "sample_ext =
     \<lparr>ApplyMessage = (\<lambda>statedb hdr tx gp.
          if tx_Gas tx \<le> gp then (Inr (tx_Gas tx), statedb, gp - tx_Gas tx)
          else (Inl ''gas limit reached'', statedb, gp)),
      IntermediateRoot = (\<lambda>statedb. (0, statedb)),
      From = (\<lambda>tx. (5, None)),
      CreateAddress = (\<lambda>a n. a + ucast n + 1),
      CreateBloom = (\<lambda>rs. 0)\<rparr>"

definition sample_state :: "unit StateDB" where
  "sample_state =
     \<lparr>balances = (\<lambda>a. 0), recorded = (\<lambda>h. []), thash = 0, bhash = 0, txIndex = 0, rest = ()\<rparr>"

definition sample_tx :: "hash \<Rightarrow> int \<Rightarrow> address option \<Rightarrow> bool \<Rightarrow> int \<Rightarrow> Transaction" where
  "sample_tx h gas to protected chainId =
     \<lparr>tx_Nonce = 3, tx_GasPrice = 1, tx_Gas = gas, tx_To = to, tx_Value = 0, tx_Data = [],
      tx_Protected = protected, tx_ChainId = chainId, tx_Hash = h, tx_signer = None\<rparr>"

definition sample_block :: "int \<Rightarrow> Transaction list \<Rightarrow> Header list \<Rightarrow> Block" where
  "sample_block n txs us =
     \<lparr>block_Header = \<lparr>Number = n, Coinbase = 1, GasLimit = 100000\<rparr>,
      block_Transactions = txs, block_Uncles = us, block_Hash = 7\<rparr>"

section \<open>Properties of the integer operations\<close>

lemma big_QuoRem_nonneg:
  assumes "0 \<le> x" "0 < b"
  shows "big_QuoRem x b = (x div b, x mod b)" "big_QuoRem x (- b) = (- (x div b), x mod b)"
proof -
  have "x - b * (x div b) = x mod b" by (simp add: minus_mult_div_eq_mod)
  then show "big_QuoRem x b = (x div b, x mod b)"
    using assms by (cases "x = 0") (simp_all add: big_QuoRem_def)
  have "x - (- b) * (- (x div b)) = x mod b" by (simp add: minus_mult_div_eq_mod)
  then show "big_QuoRem x (- b) = (- (x div b), x mod b)"
    using assms by (cases "x = 0") (simp_all add: big_QuoRem_def)
qed

lemma big_QuoRem_neg:
  assumes "x < 0" "0 < b"
  shows "big_QuoRem x b = (- ((- x) div b), - ((- x) mod b))"
        "big_QuoRem x (- b) = ((- x) div b, - ((- x) mod b))"
proof -
  have e: "b * ((- x) div b) + (- x) mod b = - x" by (rule mult_div_mod_eq)
  have e': "x + b * ((- x) div b) = - ((- x) mod b)" using e by linarith
  then have "x - b * (- ((- x) div b)) = - ((- x) mod b)" by simp
  then show "big_QuoRem x b = (- ((- x) div b), - ((- x) mod b))"
    using assms by (simp add: big_QuoRem_def)
  from e' have "x - (- b) * ((- x) div b) = - ((- x) mod b)" by simp
  then show "big_QuoRem x (- b) = ((- x) div b, - ((- x) mod b))"
    using assms by (simp add: big_QuoRem_def)
qed

lemma big_DivMod_pos:
  assumes "0 < b"
  shows "big_DivMod x b = Some (x div b, x mod b)"
proof (cases "0 \<le> x")
  case True
  moreover have "\<not> x mod b < 0" using assms by (simp add: not_less)
  ultimately show ?thesis using assms by (simp add: big_DivMod_def big_QuoRem_nonneg)
next
  case False
  then have neg: "x < 0" by simp
  have m: "0 \<le> (- x) mod b" "(- x) mod b < b" using assms by simp_all
  show ?thesis
  proof (cases "(- x) mod b = 0")
    case True
    then have "x mod b = 0" "x div b = - ((- x) div b)"
      using zmod_zminus1_eq_if [of "- x" b] zdiv_zminus1_eq_if [of b "- x"] assms by simp_all
    then show ?thesis using neg assms True by (simp add: big_DivMod_def big_QuoRem_neg)
  next
    case False
    then have "x mod b = b - (- x) mod b" "x div b = - ((- x) div b) - 1"
      using zmod_zminus1_eq_if [of "- x" b] zdiv_zminus1_eq_if [of b "- x"] assms by simp_all
    then show ?thesis using neg assms False m by (simp add: big_DivMod_def big_QuoRem_neg)
  qed
qed

lemma big_DivMod_neg:
  assumes "0 < b"
  shows "big_DivMod x (- b) = Some (- (x div b), x mod b)"
proof (cases "0 \<le> x")
  case True
  moreover have "\<not> x mod b < 0" using assms by (simp add: not_less)
  ultimately show ?thesis using assms by (simp add: big_DivMod_def big_QuoRem_nonneg)
next
  case False
  then have neg: "x < 0" by simp
  have m: "0 \<le> (- x) mod b" "(- x) mod b < b" using assms by simp_all
  show ?thesis
  proof (cases "(- x) mod b = 0")
    case True
    then have "x mod b = 0" "x div b = - ((- x) div b)"
      using zmod_zminus1_eq_if [of "- x" b] zdiv_zminus1_eq_if [of b "- x"] assms by simp_all
    then show ?thesis using neg assms True by (simp add: big_DivMod_def big_QuoRem_neg)
  next
    case False
    then have "x mod b = b - (- x) mod b" "x div b = - ((- x) div b) - 1"
      using zmod_zminus1_eq_if [of "- x" b] zdiv_zminus1_eq_if [of b "- x"] assms by simp_all
    then show ?thesis using neg assms False m by (simp add: big_DivMod_def big_QuoRem_neg)
  qed
qed

lemma big_Div_fst: "y \<noteq> 0 \<Longrightarrow> big_DivMod x y = Some (q, m) \<Longrightarrow> big_Div x y = q"
  by (auto simp add: big_Div_def big_DivMod_def split: prod.splits if_splits)

lemma big_Div_pos: "0 < b \<Longrightarrow> big_Div x b = x div b"
  using big_Div_fst [of b x "x div b" "x mod b"] by (simp add: big_DivMod_pos)

lemma big_DivMod_euclid:
  assumes "y \<noteq> 0"
  shows "big_DivMod x y = Some (sgn y * (x div \<bar>y\<bar>), x mod \<bar>y\<bar>)"
proof (cases "0 < y")
  case True
  then show ?thesis by (simp add: big_DivMod_pos)
next
  case False
  then have "0 < - y" using assms by simp
  from big_DivMod_neg [OF this, of x] False assms show ?thesis by simp
qed

section \<open>Properties of the reward engine\<close>

lemma uncle_rewards_reward:
  "fst (uncle_rewards header uncles (reward, statedb)) =
     reward + int (length uncles) * (MaximumBlockReward div 32)"
  by (induction uncles arbitrary: reward statedb)
     (simp_all add: Let_def big32_def big_Div_pos algebra_simps)

lemma uncle_rewards_balances:
  "balances (snd (uncle_rewards header uncles (reward, statedb))) a =
     balances statedb a +
     sum_list (map (\<lambda>u. (Number u + 8 - Number header) * MaximumBlockReward div 8)
                   (filter (\<lambda>u. Coinbase u = a) uncles))"
  by (induction uncles arbitrary: reward statedb)
     (simp_all add: Let_def big8_def big_Div_pos AddBalance_def)

lemma uncle_rewards_frame:
  "\<exists>b. snd (uncle_rewards header uncles (reward, statedb)) = statedb\<lparr>balances := b\<rparr>"
proof (induction uncles arbitrary: reward statedb)
  case Nil
  show ?case by simp (rule exI [of _ "balances statedb"], simp)
next
  case (Cons u us)
  let ?st = "AddBalance statedb (Coinbase u)
               (big_Div ((Number u + big8 - Number header) * MaximumBlockReward) big8)"
  obtain b where
    "snd (uncle_rewards header us (reward + big_Div MaximumBlockReward big32, ?st)) =
       ?st\<lparr>balances := b\<rparr>"
    using Cons.IH by blast
  then have "snd (uncle_rewards header (u # us) (reward, statedb)) = statedb\<lparr>balances := b\<rparr>"
    by (simp add: Let_def AddBalance_def)
  then show ?case by blast
qed

lemma AccumulateRewards_frame:
  "\<exists>b. AccumulateRewards statedb header uncles = statedb\<lparr>balances := b\<rparr>"
proof -
  obtain b where "snd (uncle_rewards header uncles (MaximumBlockReward, statedb)) = statedb\<lparr>balances := b\<rparr>"
    using uncle_rewards_frame by blast
  then have "AccumulateRewards statedb header uncles =
      statedb\<lparr>balances := b(Coinbase header := b (Coinbase header) +
        fst (uncle_rewards header uncles (MaximumBlockReward, statedb)))\<rparr>"
    by (simp add: AccumulateRewards_def AddBalance_def case_prod_beta)
  then show ?thesis by blast
qed

lemma AccumulateRewards_balances:
  "balances (AccumulateRewards statedb header uncles) a =
     balances statedb a +
     sum_list (map (\<lambda>u. (Number u + 8 - Number header) * MaximumBlockReward div 8)
                   (filter (\<lambda>u. Coinbase u = a) uncles)) +
     (if Coinbase header = a
      then MaximumBlockReward + int (length uncles) * (MaximumBlockReward div 32) else 0)"
  by (simp add: AccumulateRewards_def AddBalance_def case_prod_beta
        uncle_rewards_reward uncle_rewards_balances)

text \<open>
  Claim C3.  For every header and every sequence of uncle headers, \<open>AccumulateRewards\<close>
  credits each uncle's coinbase with (uncle number + 8 - header number) * base reward / 8
  and the header's coinbase with the base reward plus base reward / 32 per uncle: the
  balance of any address \<open>a\<close> grows by the uncle rewards of the uncles mined by \<open>a\<close>, and by
  the block reward when \<open>a\<close> is the header's coinbase.  With one uncle at header number - 1
  the uncle credit is 7/8 of the base reward (the division is exact) and the coinbase
  credit is base reward + base reward / 32.
\<close>

theorem AccumulateRewards_credits:
  "balances (AccumulateRewards statedb header uncles) a =
     balances statedb a +
     sum_list (map (\<lambda>u. (Number u + 8 - Number header) * MaximumBlockReward div 8)
                   (filter (\<lambda>u. Coinbase u = a) uncles)) +
     (if Coinbase header = a
      then MaximumBlockReward + int (length uncles) * (MaximumBlockReward div 32) else 0) \<and>
   (Number uncle = Number header - 1 \<longrightarrow>
     balances (AccumulateRewards statedb header [uncle]) a =
       balances statedb a +
       (if Coinbase uncle = a then 7 * MaximumBlockReward div 8 else 0) +
       (if Coinbase header = a then MaximumBlockReward + MaximumBlockReward div 32 else 0) \<and>
     8 * (7 * MaximumBlockReward div 8) = 7 * MaximumBlockReward)"
proof -
  have "8 * (7 * MaximumBlockReward div 8) = 7 * MaximumBlockReward"
    by (simp add: MaximumBlockReward_def)
  moreover have "Number uncle = Number header - 1 \<Longrightarrow>
      (Number uncle + 8 - Number header) * MaximumBlockReward div 8 =
      7 * MaximumBlockReward div 8"
    by simp
  ultimately show ?thesis
    by (simp add: AccumulateRewards_balances [of statedb header uncles a]
          AccumulateRewards_balances [of statedb header "[uncle]" a])
qed

theorem AccumulateRewards_credits_witness:
  "Number \<lparr>Number = 99, Coinbase = 2, GasLimit = 0\<rparr> =
     Number \<lparr>Number = 100, Coinbase = 1, GasLimit = 0\<rparr> - 1 \<and>
   balances (AccumulateRewards
       \<lparr>balances = \<lambda>_. 0, recorded = \<lambda>_. [], thash = 0, bhash = 0, txIndex = 0, rest = ()\<rparr>
       \<lparr>Number = 100, Coinbase = 1, GasLimit = 0\<rparr>
       [\<lparr>Number = 99, Coinbase = 2, GasLimit = 0\<rparr>]) 2 = 4375000000000000000 \<and>
   balances (AccumulateRewards
       \<lparr>balances = \<lambda>_. 0, recorded = \<lambda>_. [], thash = 0, bhash = 0, txIndex = 0, rest = ()\<rparr>
       \<lparr>Number = 100, Coinbase = 1, GasLimit = 0\<rparr>
       [\<lparr>Number = 99, Coinbase = 2, GasLimit = 0\<rparr>]) 1 = 5156250000000000000"
  using AccumulateRewards_credits
    [of "\<lparr>balances = \<lambda>_. 0, recorded = \<lambda>_. [], thash = 0, bhash = 0, txIndex = 0, rest = ()\<rparr>"
        "\<lparr>Number = 100, Coinbase = 1, GasLimit = 0\<rparr>" "[]" 2
        "\<lparr>Number = 99, Coinbase = 2, GasLimit = 0\<rparr>"]
    AccumulateRewards_credits
    [of "\<lparr>balances = \<lambda>_. 0, recorded = \<lambda>_. [], thash = 0, bhash = 0, txIndex = 0, rest = ()\<rparr>"
        "\<lparr>Number = 100, Coinbase = 1, GasLimit = 0\<rparr>" "[]" 1
        "\<lparr>Number = 99, Coinbase = 2, GasLimit = 0\<rparr>"]
  by (simp add: MaximumBlockReward_def)

section \<open>Properties of the transaction loop\<close>

lemma ApplyTransaction_Inl:
  "ApplyTransaction ext config gp statedb hdr tx usedGas = (Inl e, gp', statedb', usedGas') \<Longrightarrow>
     usedGas' = usedGas \<and>
     ApplyMessage ext statedb hdr (tx\<lparr>tx_signer := Some (GetSigner config (Number hdr))\<rparr>) gp =
       (Inl e, statedb', gp')"
  by (auto simp add: ApplyTransaction_def Let_def split: prod.splits sum.splits)

lemma ApplyTransaction_Inr:
  "ApplyTransaction ext config gp statedb hdr tx usedGas =
     (Inr (receipt, lgs, gas), gp', statedb', usedGas') \<Longrightarrow>
   usedGas' = usedGas + gas \<and>
   GasUsed receipt = gas \<and>
   CumulativeGasUsed receipt = usedGas + gas \<and>
   TxHash receipt = tx_Hash tx \<and>
   Logs receipt = lgs \<and>
   ContractAddress receipt =
     (if tx_To tx = None
      then CreateAddress ext
             (fst (From ext (tx\<lparr>tx_signer := Some (GetSigner config (Number hdr))\<rparr>)))
             (tx_Nonce tx)
      else 0) \<and>
   fst (ApplyMessage ext statedb hdr (tx\<lparr>tx_signer := Some (GetSigner config (Number hdr))\<rparr>) gp) =
     Inr gas"
  by (auto simp add: ApplyTransaction_def Let_def NewReceipt_def MessageCreatesContract_def
      split: prod.splits sum.splits if_splits)


lemma process_tx_Inr:
  "process_tx ext config block i tx (rs, lg, g, gp, st) = Inr (rs', lg', g', gp', st') \<Longrightarrow>
     check_protected config block tx = (None :: 'e error option) \<and>
     (\<exists>receipt lgs gas.
        ApplyTransaction ext config gp (StartRecord st (tx_Hash tx) (block_Hash block) i)
          (block_Header block) tx g = (Inr (receipt, lgs, gas), gp', st', g') \<and>
        rs' = rs @ [receipt] \<and> lg' = lg @ lgs)"
  for ext :: "('s, 'e) Collaborators"
  by (auto simp add: process_tx_def Let_def split: option.splits prod.splits sum.splits)

lemma process_tx_Inl:
  "process_tx ext config block i tx (rs, lg, g, gp, st) = Inl (gas, err, st') \<Longrightarrow>
     (check_protected config block tx = Some err \<and> gas = None \<and> st' = st) \<or>
     (check_protected config block tx = (None :: 'e error option) \<and>
      (\<exists>e gp' g'.
         ApplyTransaction ext config gp (StartRecord st (tx_Hash tx) (block_Hash block) i)
           (block_Header block) tx g = (Inl e, gp', st', g') \<and>
         err = Execution e \<and> gas = Some g))"
  for ext :: "('s, 'e) Collaborators"
  by (auto simp add: process_tx_def Let_def split: option.splits prod.splits sum.splits
      dest: ApplyTransaction_Inl)

lemma process_txs_append:
  "process_txs ext config block i (xs @ ys) vars =
     (case process_txs ext config block i xs vars of
        Inl a \<Rightarrow> Inl a
      | Inr vars' \<Rightarrow> process_txs ext config block (i + length xs) ys vars')"
  by (induction xs arbitrary: i vars) (simp_all split: sum.splits)


lemma process_txs_Inr:
  fixes ext :: "('s, 'e) Collaborators"
  assumes "process_txs ext config block i txs (rs, lg, g, gp, st) = Inr (rs', lg', g', gp', st')"
  shows "\<exists>new. rs' = rs @ new \<and> length new = length txs \<and>
           lg' = lg @ concat (map Logs new) \<and>
           g' = g + sum_list (map GasUsed new) \<and>
           (\<forall>k<length new.
              TxHash (new ! k) = tx_Hash (txs ! k) \<and>
              ContractAddress (new ! k) =
                (if tx_To (txs ! k) = None
                 then CreateAddress ext
                        (fst (From ext ((txs ! k)\<lparr>tx_signer :=
                           Some (GetSigner config (Number (block_Header block)))\<rparr>)))
                        (tx_Nonce (txs ! k))
                 else 0) \<and>
              CumulativeGasUsed (new ! k) = g + sum_list (map GasUsed (take (Suc k) new)))"
  using assms
proof (induction txs arbitrary: i rs lg g gp st)
  case Nil
  then show ?case by simp
next
  case (Cons tx txs)
  from Cons.prems obtain rs1 lg1 g1 gp1 st1 where
    step: "process_tx ext config block i tx (rs, lg, g, gp, st) = Inr (rs1, lg1, g1, gp1, st1)" and
    rest: "process_txs ext config block (Suc i) txs (rs1, lg1, g1, gp1, st1) =
             Inr (rs', lg', g', gp', st')"
    by (auto split: sum.splits)
  from process_tx_Inr [OF step] obtain receipt lgs gas where
    app: "ApplyTransaction ext config gp (StartRecord st (tx_Hash tx) (block_Hash block) i)
            (block_Header block) tx g = (Inr (receipt, lgs, gas), gp1, st1, g1)" and
    rs1: "rs1 = rs @ [receipt]" and lg1: "lg1 = lg @ lgs"
    by blast
  note r = ApplyTransaction_Inr [OF app]
  from Cons.IH [OF rest] obtain new where
    new: "rs' = rs1 @ new" "length new = length txs" "lg' = lg1 @ concat (map Logs new)"
      "g' = g1 + sum_list (map GasUsed new)" and
    each: "\<And>k. k < length new \<Longrightarrow>
              TxHash (new ! k) = tx_Hash (txs ! k) \<and>
              ContractAddress (new ! k) =
                (if tx_To (txs ! k) = None
                 then CreateAddress ext
                        (fst (From ext ((txs ! k)\<lparr>tx_signer :=
                           Some (GetSigner config (Number (block_Header block)))\<rparr>)))
                        (tx_Nonce (txs ! k))
                 else 0) \<and>
              CumulativeGasUsed (new ! k) = g1 + sum_list (map GasUsed (take (Suc k) new))"
    by blast
  let ?new = "receipt # new"
  have "rs' = rs @ ?new" using new rs1 by simp
  moreover have "length ?new = length (tx # txs)" using new by simp
  moreover have "lg' = lg @ concat (map Logs ?new)" using new lg1 r by simp
  moreover have "g' = g + sum_list (map GasUsed ?new)" using new r by simp
  moreover have "TxHash (?new ! k) = tx_Hash ((tx # txs) ! k) \<and>
              ContractAddress (?new ! k) =
                (if tx_To ((tx # txs) ! k) = None
                 then CreateAddress ext
                        (fst (From ext (((tx # txs) ! k)\<lparr>tx_signer :=
                           Some (GetSigner config (Number (block_Header block)))\<rparr>)))
                        (tx_Nonce ((tx # txs) ! k))
                 else 0) \<and>
              CumulativeGasUsed (?new ! k) = g + sum_list (map GasUsed (take (Suc k) ?new))"
    if "k < length ?new" for k
  proof (cases k)
    case 0
    then show ?thesis using r by simp
  next
    case (Suc j)
    then have "j < length new" using that by simp
    from each [OF this] show ?thesis using Suc r by simp
  qed
  ultimately show ?case by blast
qed


lemma process_txs_Inl:
  "process_txs ext config block i txs vars = Inl a \<Longrightarrow>
     \<exists>pre tx post vars'. txs = pre @ tx # post \<and>
        process_txs ext config block i pre vars = Inr vars' \<and>
        process_tx ext config block (i + length pre) tx vars' = Inl a"
proof (induction txs arbitrary: i vars)
  case Nil
  then show ?case by simp
next
  case (Cons t txs)
  show ?case
  proof (cases "process_tx ext config block i t vars")
    case (Inl b)
    with Cons.prems have "b = a" by simp
    with Inl have "t # txs = [] @ t # txs \<and>
        process_txs ext config block i [] vars = Inr vars \<and>
        process_tx ext config block (i + length ([] :: Transaction list)) t vars = Inl a"
      by simp
    then show ?thesis by blast
  next
    case (Inr vars1)
    with Cons.prems have "process_txs ext config block (Suc i) txs vars1 = Inl a" by simp
    from Cons.IH [OF this] obtain pre tx post vars' where
      "txs = pre @ tx # post"
      "process_txs ext config block (Suc i) pre vars1 = Inr vars'"
      "process_tx ext config block (Suc i + length pre) tx vars' = Inl a"
      by blast
    with Inr have "t # txs = (t # pre) @ tx # post \<and>
        process_txs ext config block i (t # pre) vars = Inr vars' \<and>
        process_tx ext config block (i + length (t # pre)) tx vars' = Inl a"
      by simp
    then show ?thesis by blast
  qed
qed

lemma process_txs_reach_Inl:
  "process_txs ext config block i pre vars = Inr vars' \<Longrightarrow>
   process_tx ext config block (i + length pre) tx vars' = Inl a \<Longrightarrow>
   process_txs ext config block i (pre @ tx # post) vars = Inl a"
  by (simp add: process_txs_append)

lemma process_txs_prefix:
  "process_txs ext config block i (xs @ ys) vars = Inr v \<Longrightarrow>
     \<exists>u. process_txs ext config block i xs vars = Inr u \<and>
         process_txs ext config block (i + length xs) ys u = Inr v"
  by (cases "process_txs ext config block i xs vars") (simp_all add: process_txs_append)

lemma Process_empty:
  "block_Transactions block = [] \<Longrightarrow> block_Uncles block = [] \<Longrightarrow>
     Process ext config block statedb =
       (([], [], Some 0, None),
        statedb\<lparr>balances := (balances statedb)
          (Coinbase (block_Header block) :=
             balances statedb (Coinbase (block_Header block)) + MaximumBlockReward)\<rparr>)"
  by (simp add: Process_def AccumulateRewards_def AddBalance_def)

lemma Process_error_nil:
  "fst (Process ext config block statedb) = (r, l, gas, Some err) \<Longrightarrow> r = [] \<and> l = []"
  by (auto simp add: Process_def Let_def split: sum.splits prod.splits)

lemma Process_success_length:
  "fst (Process ext config block statedb) = (r, l, gas, None) \<Longrightarrow>
     length r = length (block_Transactions block)"
  by (auto simp add: Process_def Let_def split: sum.splits prod.splits dest!: process_txs_Inr)

section \<open>Properties of the era classification\<close>

text \<open>
  Claim C10.  For every block number and every nonzero era length, \<open>getBlockEra\<close> returns
  the remainder of the division of the block number by the era length, plus one.  The
  remainder is the Euclidean one (between 0 and the absolute value of the era length);
  for a positive era length it is \<open>blockNum mod eraLength\<close>.  The quotient plays no part.
\<close>

theorem getBlockEra_remainder:
  "eraLength \<noteq> 0 \<Longrightarrow>
     getBlockEra blockNum eraLength = Some (blockNum mod \<bar>eraLength\<bar> + 1) \<and>
     (0 < eraLength \<longrightarrow> getBlockEra blockNum eraLength = Some (blockNum mod eraLength + 1))"
  by (simp add: getBlockEra_def big_DivMod_euclid Big1_def)

theorem getBlockEra_remainder_witness:
  "(5000000::int) \<noteq> 0 \<and> getBlockEra 5000003 5000000 = Some 4 \<and> getBlockEra 3 5000000 = Some 4"
  using getBlockEra_remainder [of 5000000 5000003] getBlockEra_remainder [of 5000000 3]
  by simp

section \<open>Properties of the state processor\<close>

lemmas sample_defs = Process_def process_tx_def check_protected_def ApplyTransaction_def sample_ext_def
     sample_config_def sample_block_def sample_tx_def sample_state_def StartRecord_def GetBigInt_def
     Let_def NewReceipt_def GetLogs_def MessageCreatesContract_def

text \<open>
  Claim C1.  Let the loop of \<open>Process\<close> have processed the transactions \<open>pre\<close> before \<open>tx\<close>
  without error, and let \<open>tx\<close> pass the check of protected transactions.  If applying
  \<open>tx\<close> returns an error, \<open>Process\<close> returns that error with nil receipts and nil logs;
  the gas value it returns is the total accumulated by the transactions before \<open>tx\<close>, the
  sum of the gas used their receipts record.  Whenever \<open>Process\<close> returns an error the
  receipts and the logs are nil, and whenever it returns none there is a receipt for
  every transaction of the block: no partial sequence is returned as success.
\<close>

theorem Process_abort_on_apply_error:
  fixes ext :: "('s, 'e) Collaborators"
  shows
  "(block_Transactions block = pre @ tx # post \<and>
    process_txs ext config block 0 pre ([], [], 0, GasLimit (block_Header block), statedb) =
      Inr (rs, lg, g, gp, st) \<and>
    check_protected config block tx = (None :: 'e error option) \<and>
    ApplyTransaction ext config gp
      (StartRecord st (tx_Hash tx) (block_Hash block) (length pre)) (block_Header block) tx g =
      (Inl e, gp', st', g')
    \<longrightarrow> Process ext config block statedb = (([], [], Some g, Some (Execution e)), st') \<and>
        length rs = length pre \<and> g = sum_list (map GasUsed rs)) \<and>
   (fst (Process ext config block statedb) = (r, l, gas, Some err) \<longrightarrow> r = [] \<and> l = []) \<and>
   (fst (Process ext config block statedb) = (r, l, gas, None) \<longrightarrow>
      length r = length (block_Transactions block))"
proof (intro conjI impI)
  assume a: "block_Transactions block = pre @ tx # post \<and>
    process_txs ext config block 0 pre ([], [], 0, GasLimit (block_Header block), statedb) =
      Inr (rs, lg, g, gp, st) \<and>
    check_protected config block tx = (None :: 'e error option) \<and>
    ApplyTransaction ext config gp
      (StartRecord st (tx_Hash tx) (block_Hash block) (length pre)) (block_Header block) tx g =
      (Inl e, gp', st', g')"
  then have app: "ApplyTransaction ext config gp
      (StartRecord st (tx_Hash tx) (block_Hash block) (length pre)) (block_Header block) tx g =
      (Inl e, gp', st', g')"
    by simp
  from ApplyTransaction_Inl [OF app] have "g' = g" by simp
  with a have "process_tx ext config block (0 + length pre) tx (rs, lg, g, gp, st) =
      Inl (Some g, Execution e, st')"
    by (simp add: process_tx_def)
  with a have "process_txs ext config block 0 (block_Transactions block)
      ([], [], 0, GasLimit (block_Header block), statedb) = Inl (Some g, Execution e, st')"
    using process_txs_reach_Inl by metis
  then show "Process ext config block statedb = (([], [], Some g, Some (Execution e)), st')"
    by (simp add: Process_def)
  from a process_txs_Inr [of ext config block 0 pre "[]" "[]" 0 _ statedb rs lg g gp st]
  show "length rs = length pre" "g = sum_list (map GasUsed rs)" by auto
next
  assume "fst (Process ext config block statedb) = (r, l, gas, Some err)"
  then show "r = []" "l = []" using Process_error_nil by metis+
next
  assume "fst (Process ext config block statedb) = (r, l, gas, None)"
  then show "length r = length (block_Transactions block)" by (rule Process_success_length)
qed


theorem Process_abort_on_apply_error_witness:
  "block_Transactions
     (sample_block 100
        [sample_tx 11 21000 (Some 9) False 0, sample_tx 12 90000 None True 61,
         sample_tx 13 30000 None True 61] []) =
     [sample_tx 11 21000 (Some 9) False 0] @ sample_tx 12 90000 None True 61 #
     [sample_tx 13 30000 None True 61] \<and>
   process_txs sample_ext sample_config
     (sample_block 100
        [sample_tx 11 21000 (Some 9) False 0, sample_tx 12 90000 None True 61,
         sample_tx 13 30000 None True 61] []) 0
     [sample_tx 11 21000 (Some 9) False 0]
     ([], [], 0, 100000, sample_state) =
     Inr ([(NewReceipt (Bytes 0) 21000)\<lparr>TxHash := 11, GasUsed := 21000\<rparr>], [], 21000, 79000,
          StartRecord sample_state 11 7 0) \<and>
   check_protected sample_config
     (sample_block 100
        [sample_tx 11 21000 (Some 9) False 0, sample_tx 12 90000 None True 61,
         sample_tx 13 30000 None True 61] [])
     (sample_tx 12 90000 None True 61) = (None :: string error option) \<and>
   ApplyTransaction sample_ext sample_config 79000
     (StartRecord (StartRecord sample_state 11 7 0) 12 7 1)
     \<lparr>Number = 100, Coinbase = 1, GasLimit = 100000\<rparr>
     (sample_tx 12 90000 None True 61) 21000 =
     (Inl ''gas limit reached'', 79000, StartRecord (StartRecord sample_state 11 7 0) 12 7 1, 21000) \<and>
   Process sample_ext sample_config
     (sample_block 100
        [sample_tx 11 21000 (Some 9) False 0, sample_tx 12 90000 None True 61,
         sample_tx 13 30000 None True 61] [])
     sample_state =
     (([], [], Some 21000, Some (Execution ''gas limit reached'')),
      StartRecord (StartRecord sample_state 11 7 0) 12 7 1)"
proof -
  let ?b = "sample_block 100
        [sample_tx 11 21000 (Some 9) False 0, sample_tx 12 90000 None True 61,
         sample_tx 13 30000 None True 61] []"
  have h1: "block_Transactions ?b =
     [sample_tx 11 21000 (Some 9) False 0] @ sample_tx 12 90000 None True 61 #
     [sample_tx 13 30000 None True 61]"
    by (simp add: sample_block_def)
  have h2: "process_txs sample_ext sample_config ?b 0 [sample_tx 11 21000 (Some 9) False 0]
     ([], [], 0, GasLimit (block_Header ?b), sample_state) =
     Inr ([(NewReceipt (Bytes 0) 21000)\<lparr>TxHash := 11, GasUsed := 21000\<rparr>], [], 21000, 79000,
          StartRecord sample_state 11 7 0)"
    by (simp add: sample_defs)
  have h3: "check_protected sample_config ?b (sample_tx 12 90000 None True 61) =
      (None :: string error option)"
    by (simp add: sample_defs)
  have h4: "ApplyTransaction sample_ext sample_config 79000
     (StartRecord (StartRecord sample_state 11 7 0) (tx_Hash (sample_tx 12 90000 None True 61))
        (block_Hash ?b) (length [sample_tx 11 21000 (Some 9) False 0]))
     (block_Header ?b) (sample_tx 12 90000 None True 61) 21000 =
     (Inl ''gas limit reached'', 79000, StartRecord (StartRecord sample_state 11 7 0) 12 7 1, 21000)"
    by (simp add: sample_defs)
  from Process_abort_on_apply_error
    [of ?b "[sample_tx 11 21000 (Some 9) False 0]" "sample_tx 12 90000 None True 61"
        "[sample_tx 13 30000 None True 61]" sample_ext sample_config sample_state
        "[(NewReceipt (Bytes 0) 21000)\<lparr>TxHash := 11, GasUsed := 21000\<rparr>]" "[]" 21000 79000
        "StartRecord sample_state 11 7 0" "''gas limit reached''" 79000
        "StartRecord (StartRecord sample_state 11 7 0) 12 7 1" 21000]
    h1 h2 h3 h4
  have "Process sample_ext sample_config ?b sample_state =
     (([], [], Some 21000, Some (Execution ''gas limit reached'')),
      StartRecord (StartRecord sample_state 11 7 0) 12 7 1)"
    by blast
  with h1 h2 h3 h4 show ?thesis by (simp add: sample_block_def sample_tx_def)
qed

text \<open>
  Claim C6.  For a block with no transactions and no uncles, \<open>Process\<close> returns empty
  receipts, empty logs, zero gas used and no error, and the state it leaves differs from
  the state it was given only in the balance of the header's coinbase, which has grown by
  exactly the base reward.
\<close>

theorem Process_empty_block:
  "block_Transactions block = [] \<Longrightarrow> block_Uncles block = [] \<Longrightarrow>
     Process ext config block statedb =
       (([], [], Some 0, None),
        statedb\<lparr>balances := (balances statedb)
          (Coinbase (block_Header block) :=
             balances statedb (Coinbase (block_Header block)) + MaximumBlockReward)\<rparr>)"
  by (rule Process_empty)

theorem Process_empty_block_witness:
  "block_Transactions (sample_block 100 [] []) = [] \<and>
   block_Uncles (sample_block 100 [] []) = [] \<and>
   fst (Process sample_ext sample_config (sample_block 100 [] []) sample_state) =
     ([], [], Some 0, None) \<and>
   balances (snd (Process sample_ext sample_config (sample_block 100 [] []) sample_state)) 1 =
     5000000000000000000 \<and>
   balances (snd (Process sample_ext sample_config (sample_block 100 [] []) sample_state)) 2 = 0"
  using Process_empty_block [of "sample_block 100 [] []" sample_ext sample_config sample_state]
  by (simp add: sample_block_def sample_state_def MaximumBlockReward_def)

lemma sum_list_take_mono:
  fixes xs :: "int list"
  assumes "\<forall>x\<in>set xs. 0 \<le> x" "i \<le> j"
  shows "sum_list (take i xs) \<le> sum_list (take j xs)"
proof -
  have "take j xs = take i xs @ take (j - i) (drop i xs)"
    using assms(2) take_add [of i "j - i" xs] by simp
  moreover have "0 \<le> sum_list (take (j - i) (drop i xs))"
    using assms(1) by (intro sum_list_nonneg) (auto dest!: in_set_takeD in_set_dropD)
  ultimately show ?thesis by simp
qed

lemma process_txs_nth:
  fixes ext :: "('s, 'e) Collaborators"
  assumes run: "process_txs ext config block 0 txs ([], [], 0, gp0, st0) = Inr (rs', lg', g', gp', st')"
    and k: "k < length txs"
  shows "\<exists>rs lg g gp st.
           process_txs ext config block 0 (take k txs) ([], [], 0, gp0, st0) = Inr (rs, lg, g, gp, st) \<and>
           fst (ApplyMessage ext (StartRecord st (tx_Hash (txs ! k)) (block_Hash block) k)
                  (block_Header block)
                  ((txs ! k)\<lparr>tx_signer := Some (GetSigner config (Number (block_Header block)))\<rparr>) gp) =
             Inr (GasUsed (rs' ! k))"
proof -
  have split: "txs = take k txs @ txs ! k # drop (Suc k) txs"
    using k by (simp add: id_take_nth_drop)
  have "process_txs ext config block 0 (take k txs @ txs ! k # drop (Suc k) txs)
          ([], [], 0, gp0, st0) = Inr (rs', lg', g', gp', st')"
    using run split by simp
  from process_txs_prefix [OF this] obtain rs lg g gp st where
    pre: "process_txs ext config block 0 (take k txs) ([], [], 0, gp0, st0) = Inr (rs, lg, g, gp, st)" and
    rest: "process_txs ext config block (0 + length (take k txs)) (txs ! k # drop (Suc k) txs)
             (rs, lg, g, gp, st) = Inr (rs', lg', g', gp', st')"
    by (metis prod_cases5)
  have len: "length (take k txs) = k" using k by simp
  from rest len obtain rs1 lg1 g1 gp1 st1 where
    step: "process_tx ext config block k (txs ! k) (rs, lg, g, gp, st) = Inr (rs1, lg1, g1, gp1, st1)" and
    tail: "process_txs ext config block (Suc k) (drop (Suc k) txs) (rs1, lg1, g1, gp1, st1) =
             Inr (rs', lg', g', gp', st')"
    by (auto split: sum.splits)
  from process_tx_Inr [OF step] obtain receipt lgs gas where
    app: "ApplyTransaction ext config gp (StartRecord st (tx_Hash (txs ! k)) (block_Hash block) k)
            (block_Header block) (txs ! k) g = (Inr (receipt, lgs, gas), gp1, st1, g1)" and
    rs1: "rs1 = rs @ [receipt]"
    by blast
  from process_txs_Inr [OF pre] len have "length rs = k" by auto
  moreover from process_txs_Inr [OF tail] obtain new where "rs' = rs1 @ new" by blast
  ultimately have "rs' ! k = receipt" using rs1 by (simp add: nth_append)
  with ApplyTransaction_Inr [OF app] pre show ?thesis by auto
qed

text \<open>
  Claim C2.  When \<open>Process\<close> succeeds there is one receipt per transaction, in the order of
  the transactions (the receipt at index \<open>k\<close> carries the hash of the transaction at index
  \<open>k\<close>); its \<open>GasUsed\<close> is the gas the execution engine reported for that transaction, run
  on the state the transactions before it left; its \<open>CumulativeGasUsed\<close> is the sum of
  \<open>GasUsed\<close> over the receipts up to and including index \<open>k\<close>; the total gas returned is the
  sum of \<open>GasUsed\<close> over all receipts.  The cumulative values are non-decreasing when the
  gas amounts reported by the engine are not negative.
\<close>

theorem Process_receipts_gas:
  fixes ext :: "('s, 'e) Collaborators"
  shows
  "fst (Process ext config block statedb) = (receipts, lgs, gas, None) \<Longrightarrow>
     length receipts = length (block_Transactions block) \<and>
     map TxHash receipts = map tx_Hash (block_Transactions block) \<and>
     (\<forall>k<length receipts.
        CumulativeGasUsed (receipts ! k) = sum_list (map GasUsed (take (Suc k) receipts))) \<and>
     (\<forall>k<length receipts. \<exists>rs lg g gp st.
        process_txs ext config block 0 (take k (block_Transactions block))
          ([], [], 0, GasLimit (block_Header block), statedb) = Inr (rs, lg, g, gp, st) \<and>
        fst (ApplyMessage ext
               (StartRecord st (tx_Hash (block_Transactions block ! k)) (block_Hash block) k)
               (block_Header block)
               ((block_Transactions block ! k)
                  \<lparr>tx_signer := Some (GetSigner config (Number (block_Header block)))\<rparr>) gp) =
          Inr (GasUsed (receipts ! k))) \<and>
     gas = Some (sum_list (map GasUsed receipts)) \<and>
     ((\<forall>k<length receipts. 0 \<le> GasUsed (receipts ! k)) \<longrightarrow>
        sorted (map CumulativeGasUsed receipts))"
proof -
  assume "fst (Process ext config block statedb) = (receipts, lgs, gas, None)"
  then obtain g gp st where
    run: "process_txs ext config block 0 (block_Transactions block)
       ([], [], 0, GasLimit (block_Header block), statedb) = Inr (receipts, lgs, g, gp, st)" and
    gas: "gas = Some g"
    by (auto simp add: Process_def Let_def split: sum.splits prod.splits)
  from process_txs_Inr [OF run] have
    len: "length receipts = length (block_Transactions block)" and
    g: "g = sum_list (map GasUsed receipts)" and
    each: "\<And>k. k < length receipts \<Longrightarrow>
              TxHash (receipts ! k) = tx_Hash (block_Transactions block ! k) \<and>
              CumulativeGasUsed (receipts ! k) = sum_list (map GasUsed (take (Suc k) receipts))"
    by auto
  have hashes: "map TxHash receipts = map tx_Hash (block_Transactions block)"
    using len each by (simp add: list_eq_iff_nth_eq)
  have engine: "\<forall>k<length receipts. \<exists>rs lg g gp st.
        process_txs ext config block 0 (take k (block_Transactions block))
          ([], [], 0, GasLimit (block_Header block), statedb) = Inr (rs, lg, g, gp, st) \<and>
        fst (ApplyMessage ext
               (StartRecord st (tx_Hash (block_Transactions block ! k)) (block_Hash block) k)
               (block_Header block)
               ((block_Transactions block ! k)
                  \<lparr>tx_signer := Some (GetSigner config (Number (block_Header block)))\<rparr>) gp) =
          Inr (GasUsed (receipts ! k))"
    using process_txs_nth [OF run] len by simp
  have mono: "sorted (map CumulativeGasUsed receipts)"
    if nonneg: "\<forall>k<length receipts. 0 \<le> GasUsed (receipts ! k)"
  proof -
    have pos: "\<forall>x\<in>set (map GasUsed receipts). 0 \<le> x"
      using nonneg by (auto simp add: in_set_conv_nth)
    show ?thesis
    proof (subst sorted_iff_nth_mono, intro allI impI)
      fix i j
      assume "i \<le> j" "j < length (map CumulativeGasUsed receipts)"
      then have ij: "i < length receipts" "j < length receipts" "Suc i \<le> Suc j" by simp_all
      have "sum_list (take (Suc i) (map GasUsed receipts)) \<le>
            sum_list (take (Suc j) (map GasUsed receipts))"
        using pos ij(3) by (rule sum_list_take_mono)
      then show "map CumulativeGasUsed receipts ! i \<le> map CumulativeGasUsed receipts ! j"
        using ij each by (simp add: take_map)
    qed
  qed
  from len hashes each engine gas g mono show ?thesis by simp
qed


theorem Process_receipts_gas_witness:
  "fst (Process sample_ext sample_config
          (sample_block 100
             [sample_tx 11 21000 (Some 9) False 0, sample_tx 12 30000 None True 61] [])
          sample_state) =
     ([(NewReceipt (Bytes 0) 21000)\<lparr>TxHash := 11, GasUsed := 21000\<rparr>,
       (NewReceipt (Bytes 0) 51000)\<lparr>TxHash := 12, GasUsed := 30000, ContractAddress := 9\<rparr>],
      [], Some 51000, None) \<and>
   map CumulativeGasUsed
     [(NewReceipt (Bytes 0) 21000)\<lparr>TxHash := 11, GasUsed := 21000\<rparr>,
      (NewReceipt (Bytes 0) 51000)\<lparr>TxHash := 12, GasUsed := 30000, ContractAddress := 9\<rparr>] =
     [21000, 51000] \<and>
   map GasUsed
     [(NewReceipt (Bytes 0) 21000)\<lparr>TxHash := 11, GasUsed := 21000\<rparr>,
      (NewReceipt (Bytes 0) 51000)\<lparr>TxHash := 12, GasUsed := 30000, ContractAddress := 9\<rparr>] =
     [21000, 30000] \<and>
   sorted (map CumulativeGasUsed
     [(NewReceipt (Bytes 0) 21000)\<lparr>TxHash := 11, GasUsed := 21000\<rparr>,
      (NewReceipt (Bytes 0) 51000)\<lparr>TxHash := 12, GasUsed := 30000, ContractAddress := 9\<rparr>])"
proof -
  have h: "fst (Process sample_ext sample_config
          (sample_block 100
             [sample_tx 11 21000 (Some 9) False 0, sample_tx 12 30000 None True 61] [])
          sample_state) =
     ([(NewReceipt (Bytes 0) 21000)\<lparr>TxHash := 11, GasUsed := 21000\<rparr>,
       (NewReceipt (Bytes 0) 51000)\<lparr>TxHash := 12, GasUsed := 30000, ContractAddress := 9\<rparr>],
      [], Some 51000, None)"
    by (simp add: sample_defs)
  have nonneg: "\<forall>k<length
      [(NewReceipt (Bytes 0) 21000)\<lparr>TxHash := 11, GasUsed := 21000\<rparr>,
       (NewReceipt (Bytes 0) 51000)\<lparr>TxHash := 12, GasUsed := 30000, ContractAddress := 9\<rparr>].
      0 \<le> GasUsed
        ([(NewReceipt (Bytes 0) 21000)\<lparr>TxHash := 11, GasUsed := 21000\<rparr>,
          (NewReceipt (Bytes 0) 51000)\<lparr>TxHash := 12, GasUsed := 30000, ContractAddress := 9\<rparr>] ! k)"
    by (simp add: less_Suc_eq)
  from Process_receipts_gas [OF h] nonneg
  have "sorted (map CumulativeGasUsed
     [(NewReceipt (Bytes 0) 21000)\<lparr>TxHash := 11, GasUsed := 21000\<rparr>,
      (NewReceipt (Bytes 0) 51000)\<lparr>TxHash := 12, GasUsed := 30000, ContractAddress := 9\<rparr>])"
    by blast
  with h show ?thesis by (simp add: NewReceipt_def)
qed

text \<open>
  Claim C7.  When \<open>ApplyTransaction\<close> succeeds on a transaction without recipient, the
  contract address of the receipt is the address derived from the sender (the address
  \<open>From\<close> returns for the transaction under the signer of the header's number) and the
  nonce of the transaction; on a transaction with a recipient the receipt keeps the
  zero address, that is, no created-contract address.  The same holds for every receipt
  of a block that \<open>Process\<close> processes successfully.
\<close>

theorem ApplyTransaction_contract_address:
  fixes ext :: "('s, 'e) Collaborators"
  shows
  "(ApplyTransaction ext config gp statedb hdr tx usedGas =
      (Inr (receipt, lgs, gas), gp', statedb', usedGas') \<longrightarrow>
      (tx_To tx = None \<longrightarrow>
         ContractAddress receipt =
           CreateAddress ext
             (fst (From ext (tx\<lparr>tx_signer := Some (GetSigner config (Number hdr))\<rparr>)))
             (tx_Nonce tx)) \<and>
      (tx_To tx \<noteq> None \<longrightarrow> ContractAddress receipt = 0)) \<and>
   (fst (Process ext config block st) = (receipts, allLogs, used, None) \<longrightarrow>
      (\<forall>k<length receipts.
         ContractAddress (receipts ! k) =
           (if tx_To (block_Transactions block ! k) = None
            then CreateAddress ext
                   (fst (From ext ((block_Transactions block ! k)
                      \<lparr>tx_signer := Some (GetSigner config (Number (block_Header block)))\<rparr>)))
                   (tx_Nonce (block_Transactions block ! k))
            else 0)))"
proof (intro conjI impI)
  assume a: "ApplyTransaction ext config gp statedb hdr tx usedGas =
      (Inr (receipt, lgs, gas), gp', statedb', usedGas')"
  from ApplyTransaction_Inr [OF a]
  show "tx_To tx = None \<Longrightarrow> ContractAddress receipt =
           CreateAddress ext
             (fst (From ext (tx\<lparr>tx_signer := Some (GetSigner config (Number hdr))\<rparr>)))
             (tx_Nonce tx)"
    by simp
  from ApplyTransaction_Inr [OF a]
  show "tx_To tx \<noteq> None \<Longrightarrow> ContractAddress receipt = 0"
    by auto
next
  assume "fst (Process ext config block st) = (receipts, allLogs, used, None)"
  then obtain g gp1 st1 where
    run: "process_txs ext config block 0 (block_Transactions block)
       ([], [], 0, GasLimit (block_Header block), st) = Inr (receipts, allLogs, g, gp1, st1)"
    by (auto simp add: Process_def Let_def split: sum.splits prod.splits)
  from process_txs_Inr [OF run]
  show "\<forall>k<length receipts.
         ContractAddress (receipts ! k) =
           (if tx_To (block_Transactions block ! k) = None
            then CreateAddress ext
                   (fst (From ext ((block_Transactions block ! k)
                      \<lparr>tx_signer := Some (GetSigner config (Number (block_Header block)))\<rparr>)))
                   (tx_Nonce (block_Transactions block ! k))
            else 0)"
    by auto
qed

theorem ApplyTransaction_contract_address_witness:
  "ApplyTransaction sample_ext sample_config 100000 sample_state
     \<lparr>Number = 100, Coinbase = 1, GasLimit = 100000\<rparr> (sample_tx 12 30000 None True 61) 0 =
     (Inr ((NewReceipt (Bytes 0) 30000)\<lparr>TxHash := 12, GasUsed := 30000, ContractAddress := 9\<rparr>,
           [], 30000), 70000, sample_state, 30000) \<and>
   tx_To (sample_tx 12 30000 None True 61) = None \<and>
   CreateAddress sample_ext
     (fst (From sample_ext ((sample_tx 12 30000 None True 61)\<lparr>tx_signer := Some 1\<rparr>)))
     (tx_Nonce (sample_tx 12 30000 None True 61)) = 9 \<and>
   ApplyTransaction sample_ext sample_config 100000 sample_state
     \<lparr>Number = 100, Coinbase = 1, GasLimit = 100000\<rparr> (sample_tx 11 21000 (Some 9) False 0) 0 =
     (Inr ((NewReceipt (Bytes 0) 21000)\<lparr>TxHash := 11, GasUsed := 21000\<rparr>,
           [], 21000), 79000, sample_state, 21000) \<and>
   tx_To (sample_tx 11 21000 (Some 9) False 0) \<noteq> None \<and>
   ContractAddress ((NewReceipt (Bytes 0) 21000)\<lparr>TxHash := 11, GasUsed := 21000\<rparr>) = 0"
proof -
  have h1: "ApplyTransaction sample_ext sample_config 100000 sample_state
     \<lparr>Number = 100, Coinbase = 1, GasLimit = 100000\<rparr> (sample_tx 12 30000 None True 61) 0 =
     (Inr ((NewReceipt (Bytes 0) 30000)\<lparr>TxHash := 12, GasUsed := 30000, ContractAddress := 9\<rparr>,
           [], 30000), 70000, sample_state, 30000)"
    by (simp add: sample_defs)
  have h2: "ApplyTransaction sample_ext sample_config 100000 sample_state
     \<lparr>Number = 100, Coinbase = 1, GasLimit = 100000\<rparr> (sample_tx 11 21000 (Some 9) False 0) 0 =
     (Inr ((NewReceipt (Bytes 0) 21000)\<lparr>TxHash := 11, GasUsed := 21000\<rparr>,
           [], 21000), 79000, sample_state, 21000)"
    by (simp add: sample_defs)
  have t: "tx_To (sample_tx 12 30000 None True 61) = None"
    "tx_To (sample_tx 11 21000 (Some 9) False 0) \<noteq> None"
    by (simp_all add: sample_tx_def)
  from ApplyTransaction_contract_address
         [of sample_ext sample_config 100000 sample_state
             "\<lparr>Number = 100, Coinbase = 1, GasLimit = 100000\<rparr>" "sample_tx 12 30000 None True 61" 0
             _ "[]" 30000 70000 sample_state 30000]
       ApplyTransaction_contract_address
         [of sample_ext sample_config 100000 sample_state
             "\<lparr>Number = 100, Coinbase = 1, GasLimit = 100000\<rparr>"
             "sample_tx 11 21000 (Some 9) False 0" 0
             _ "[]" 21000 79000 sample_state 21000]
       h1 h2 t
  show ?thesis by (simp add: sample_ext_def sample_tx_def sample_config_def NewReceipt_def)
qed

lemma check_protected_not_set:
  "tx_Protected tx \<Longrightarrow>
   GetFeature config (Number (block_Header block)) ''eip155'' = (feat, configured) \<Longrightarrow>
   \<not> configured \<or> GetBigInt feat ''chainID'' = None \<Longrightarrow>
   check_protected config block tx =
     Some (ChainIdNotSet (Number (block_Header block)) (tx_ChainId tx))"
  by (auto simp add: check_protected_def split: option.splits)

lemma check_protected_mismatch:
  "tx_Protected tx \<Longrightarrow>
   GetFeature config (Number (block_Header block)) ''eip155'' = (feat, True) \<Longrightarrow>
   GetBigInt feat ''chainID'' = Some chainId \<Longrightarrow>
   tx_ChainId tx \<noteq> chainId \<Longrightarrow>
   check_protected config block tx = Some (InvalidChainId (GetChainID config) (tx_ChainId tx))"
  by (simp add: check_protected_def)

lemma process_tx_check_fails:
  fixes ext :: "('s, 'e) Collaborators" and err :: "'e error"
  shows "check_protected config block tx = Some err \<Longrightarrow>
   process_tx ext config block i tx (rs, lg, g, gp, st) = Inl (None, err, st)"
  by (simp add: process_tx_def)

lemma process_txs_check_fails:
  fixes ext :: "('s, 'e) Collaborators" and err :: "'e error"
  shows "tx \<in> set txs \<Longrightarrow> check_protected config block tx = Some err \<Longrightarrow>
   \<exists>a. process_txs ext config block i txs vars = Inl a"
proof (induction txs arbitrary: i vars)
  case Nil
  then show ?case by simp
next
  case (Cons t txs)
  obtain rs lg g gp st where vars: "vars = (rs, lg, g, gp, st)" by (cases vars)
  show ?case
  proof (cases "process_tx ext config block i t vars")
    case (Inl a)
    then have "process_txs ext config block i (t # txs) vars = Inl a" by simp
    then show ?thesis by (rule exI)
  next
    case (Inr vars')
    with Cons.prems(2) vars have "t \<noteq> tx" by (auto simp add: process_tx_check_fails)
    with Cons.prems have "tx \<in> set txs" by simp
    from Cons.IH [OF this Cons.prems(2)] Inr show ?thesis by simp
  qed
qed

lemma Process_check_fails:
  fixes ext :: "('s, 'e) Collaborators" and err :: "'e error"
  assumes "tx \<in> set (block_Transactions block)" "check_protected config block tx = Some err"
  shows "\<exists>gas err' st'. Process ext config block statedb = (([], [], gas, Some err'), st')"
proof -
  from process_txs_check_fails [OF assms] obtain a where
    "process_txs ext config block 0 (block_Transactions block)
       ([], [], 0, GasLimit (block_Header block), statedb) = Inl a"
    by blast
  then show ?thesis by (cases a) (simp add: Process_def)
qed

lemma Process_reach_check_fails:
  fixes ext :: "('s, 'e) Collaborators" and err :: "'e error"
  assumes "block_Transactions block = pre @ tx # post"
    and "process_txs ext config block 0 pre ([], [], 0, GasLimit (block_Header block), statedb) =
           Inr (rs, lg, g, gp, st)"
    and "check_protected config block tx = Some err"
  shows "Process ext config block statedb = (([], [], None, Some err), st)"
proof -
  from assms(3) have "process_tx ext config block (0 + length pre) tx (rs, lg, g, gp, st) =
      Inl (None, err, st)"
    by (rule process_tx_check_fails)
  from process_txs_reach_Inl [OF assms(2) this, of post] assms(1)
  show ?thesis by (simp add: Process_def)
qed


text \<open>
  Claim C5, amended.  Let the block contain a protected transaction \<open>tx\<close>, and let the rule
  \<open>eip155\<close> not be configured at the block's number, or lack its \<open>chainID\<close> parameter.  Then
  \<open>Process\<close> returns an error and nil receipts and logs.  If the loop has processed the
  transactions before \<open>tx\<close> without error, the error is the configuration error naming
  the block number and the chain identifier of \<open>tx\<close>, the gas value is nil, and the state
  is as the transactions before \<open>tx\<close> left it.
\<close>

theorem Process_chain_id_not_set:
  fixes ext :: "('s, 'e) Collaborators"
  shows
  "tx_Protected tx \<and>
   GetFeature config (Number (block_Header block)) ''eip155'' = (feat, configured) \<and>
   (\<not> configured \<or> GetBigInt feat ''chainID'' = None) \<longrightarrow>
   (tx \<in> set (block_Transactions block) \<longrightarrow>
      (\<exists>gas err st'. Process ext config block statedb = (([], [], gas, Some err), st'))) \<and>
   (block_Transactions block = pre @ tx # post \<and>
    process_txs ext config block 0 pre ([], [], 0, GasLimit (block_Header block), statedb) =
      Inr (rs, lg, g, gp, st) \<longrightarrow>
      Process ext config block statedb =
        (([], [], None, Some (ChainIdNotSet (Number (block_Header block)) (tx_ChainId tx))), st))"
proof (intro impI conjI)
  assume a: "tx_Protected tx \<and>
   GetFeature config (Number (block_Header block)) ''eip155'' = (feat, configured) \<and>
   (\<not> configured \<or> GetBigInt feat ''chainID'' = None)"
  then have c: "check_protected config block tx =
      Some (ChainIdNotSet (Number (block_Header block)) (tx_ChainId tx) :: 'e error)"
    by (simp add: check_protected_not_set [of tx config block feat configured])
  show "\<exists>gas err st'. Process ext config block statedb = (([], [], gas, Some err), st')"
    if "tx \<in> set (block_Transactions block)"
    using that c by (rule Process_check_fails)
  show "Process ext config block statedb =
        (([], [], None, Some (ChainIdNotSet (Number (block_Header block)) (tx_ChainId tx))), st)"
    if "block_Transactions block = pre @ tx # post \<and>
    process_txs ext config block 0 pre ([], [], 0, GasLimit (block_Header block), statedb) =
      Inr (rs, lg, g, gp, st)"
    using that c Process_reach_check_fails by blast
qed


theorem Process_chain_id_not_set_witness:
  "tx_Protected (sample_tx 13 30000 None True 1) \<and>
   GetFeature sample_config (Number (block_Header
     (sample_block 5
        [sample_tx 11 21000 (Some 9) False 0, sample_tx 13 30000 None True 1,
         sample_tx 12 30000 None True 61] []))) ''eip155'' =
     (Map.empty, False) \<and>
   GetBigInt Map.empty ''chainID'' = None \<and>
   sample_tx 13 30000 None True 1 \<in> set (block_Transactions
     (sample_block 5
        [sample_tx 11 21000 (Some 9) False 0, sample_tx 13 30000 None True 1,
         sample_tx 12 30000 None True 61] [])) \<and>
   block_Transactions
     (sample_block 5
        [sample_tx 11 21000 (Some 9) False 0, sample_tx 13 30000 None True 1,
         sample_tx 12 30000 None True 61] []) =
     [sample_tx 11 21000 (Some 9) False 0] @ sample_tx 13 30000 None True 1 #
     [sample_tx 12 30000 None True 61] \<and>
   process_txs sample_ext sample_config
     (sample_block 5
        [sample_tx 11 21000 (Some 9) False 0, sample_tx 13 30000 None True 1,
         sample_tx 12 30000 None True 61] []) 0
     [sample_tx 11 21000 (Some 9) False 0] ([], [], 0, 100000, sample_state) =
     Inr ([(NewReceipt (Bytes 0) 21000)\<lparr>TxHash := 11, GasUsed := 21000\<rparr>], [], 21000, 79000,
          StartRecord sample_state 11 7 0) \<and>
   Process sample_ext sample_config
     (sample_block 5
        [sample_tx 11 21000 (Some 9) False 0, sample_tx 13 30000 None True 1,
         sample_tx 12 30000 None True 61] []) sample_state =
     (([], [], None, Some (ChainIdNotSet 5 1)), StartRecord sample_state 11 7 0)"
proof -
  let ?b = "(sample_block 5
        [sample_tx 11 21000 (Some 9) False 0, sample_tx 13 30000 None True 1,
         sample_tx 12 30000 None True 61] [])"
  let ?tx = "sample_tx 13 30000 None True 1"
  have h0: "tx_Protected ?tx \<and>
   GetFeature sample_config (Number (block_Header
     ?b)) ''eip155'' =
     (Map.empty, False) \<and>
   GetBigInt Map.empty ''chainID'' = None"
    by (simp add: sample_defs)
  have h1: "block_Transactions ?b =
     [sample_tx 11 21000 (Some 9) False 0] @ ?tx # [sample_tx 12 30000 None True 61] \<and>
     process_txs sample_ext sample_config ?b 0
       [sample_tx 11 21000 (Some 9) False 0] ([], [], 0, GasLimit (block_Header ?b), sample_state) =
     Inr ([(NewReceipt (Bytes 0) 21000)\<lparr>TxHash := 11, GasUsed := 21000\<rparr>], [], 21000, 79000,
          StartRecord sample_state 11 7 0)"
    by (simp add: sample_defs)
  have h2: "?tx \<in> set (block_Transactions ?b)"
    by (simp add: sample_block_def)
  from Process_chain_id_not_set
         [of ?tx sample_config ?b Map.empty False sample_ext sample_state
             "[sample_tx 11 21000 (Some 9) False 0]" "[sample_tx 12 30000 None True 61]"
             "[(NewReceipt (Bytes 0) 21000)\<lparr>TxHash := 11, GasUsed := 21000\<rparr>]" "[]" 21000 79000
             "StartRecord sample_state 11 7 0"]
       h0 h1
  have "Process sample_ext sample_config ?b sample_state =
     (([], [], None, Some (ChainIdNotSet 5 1)), StartRecord sample_state 11 7 0)"
    by (simp add: sample_defs)
  with h0 h1 h2 show ?thesis by (simp add: sample_defs)
qed

text \<open>
  Claim C5 as stated, for every block containing a protected transaction, fails when an
  unprotected transaction before it fails in the applier: \<open>Process\<close> returns the error of
  the applier and the gas accumulated so far, and the rule is never looked up.
\<close>

theorem Process_chain_id_not_set_counterexample:
  "sample_tx 13 30000 None True 1 \<in> set (block_Transactions
     (sample_block 5
        [sample_tx 11 200000 (Some 9) False 0, sample_tx 13 30000 None True 1] [])) \<and>
   tx_Protected (sample_tx 13 30000 None True 1) \<and>
   GetFeature sample_config (Number (block_Header
     (sample_block 5
        [sample_tx 11 200000 (Some 9) False 0, sample_tx 13 30000 None True 1] []))) ''eip155'' =
     (Map.empty, False) \<and>
   GetBigInt Map.empty ''chainID'' = None \<and>
   fst (Process sample_ext sample_config
     (sample_block 5
        [sample_tx 11 200000 (Some 9) False 0, sample_tx 13 30000 None True 1] []) sample_state) =
     ([], [], Some 0, Some (Execution ''gas limit reached''))"
  by (simp add: sample_defs)

lemma Process_reach_apply_fails:
  fixes ext :: "('s, 'e) Collaborators"
  assumes txs: "block_Transactions block = pre @ tx # post"
    and pre: "process_txs ext config block 0 pre ([], [], 0, GasLimit (block_Header block), statedb) =
           Inr (rs, lg, g, gp, st)"
    and chk: "check_protected config block tx = (None :: 'e error option)"
    and app: "ApplyTransaction ext config gp
           (StartRecord st (tx_Hash tx) (block_Hash block) (length pre)) (block_Header block) tx g =
           (Inl e, gp', st', g')"
  shows "Process ext config block statedb = (([], [], Some g, Some (Execution e)), st')"
    and "g = sum_list (map GasUsed rs)"
proof -
  from ApplyTransaction_Inl [OF app] have "g' = g" by simp
  with chk app have "process_tx ext config block (0 + length pre) tx (rs, lg, g, gp, st) =
      Inl (Some g, Execution e, st')"
    by (simp add: process_tx_def)
  from process_txs_reach_Inl [OF pre this, of post] txs
  show "Process ext config block statedb = (([], [], Some g, Some (Execution e)), st')"
    by (simp add: Process_def)
  from process_txs_Inr [OF pre] show "g = sum_list (map GasUsed rs)" by auto
qed

text \<open>
  Claim C9.  When \<open>Process\<close> returns one of the two errors of the check of protected
  transactions, the gas value it returns is nil.  When it returns an error of the
  transaction applier, the gas value is not nil: the block splits into the transactions
  \<open>pre\<close> that were processed without error, the transaction \<open>tx\<close> on which the applier
  returned that error, and the rest, and the gas value is the total accumulated by
  \<open>pre\<close>, the sum of the gas used their receipts record.  Conversely, a failed check on
  the first transaction that fails gives the nil gas value and a failed application gives
  the accumulated total.
\<close>

theorem Process_error_gas:
  fixes ext :: "('s, 'e) Collaborators"
  shows
  "(fst (Process ext config block statedb) = (r, l, gas, Some err) \<longrightarrow>
     (case err of
        ChainIdNotSet n c \<Rightarrow> gas = None
      | InvalidChainId c c' \<Rightarrow> gas = None
      | Execution e \<Rightarrow>
          (\<exists>pre tx post rs lg g gp st gp' st' g'.
             block_Transactions block = pre @ tx # post \<and>
             process_txs ext config block 0 pre
               ([], [], 0, GasLimit (block_Header block), statedb) = Inr (rs, lg, g, gp, st) \<and>
             check_protected config block tx = (None :: 'e error option) \<and>
             ApplyTransaction ext config gp
               (StartRecord st (tx_Hash tx) (block_Hash block) (length pre))
               (block_Header block) tx g = (Inl e, gp', st', g') \<and>
             gas = Some g \<and> g = sum_list (map GasUsed rs)))) \<and>
   (block_Transactions block = pre1 @ tx1 # post1 \<and>
    process_txs ext config block 0 pre1 ([], [], 0, GasLimit (block_Header block), statedb) =
      Inr (rs1, lg1, g1, gp1, st1) \<and>
    check_protected config block tx1 = Some cerr \<longrightarrow>
      fst (Process ext config block statedb) = ([], [], None, Some cerr)) \<and>
   (block_Transactions block = pre1 @ tx1 # post1 \<and>
    process_txs ext config block 0 pre1 ([], [], 0, GasLimit (block_Header block), statedb) =
      Inr (rs1, lg1, g1, gp1, st1) \<and>
    check_protected config block tx1 = (None :: 'e error option) \<and>
    ApplyTransaction ext config gp1
      (StartRecord st1 (tx_Hash tx1) (block_Hash block) (length pre1))
      (block_Header block) tx1 g1 = (Inl e1, gp2, st2, g2) \<longrightarrow>
      fst (Process ext config block statedb) = ([], [], Some g1, Some (Execution e1)) \<and>
      g1 = sum_list (map GasUsed rs1))"
proof (intro conjI impI)
  assume "fst (Process ext config block statedb) = (r, l, gas, Some err)"
  then obtain st' where
    "process_txs ext config block 0 (block_Transactions block)
       ([], [], 0, GasLimit (block_Header block), statedb) = Inl (gas, err, st')"
    by (auto simp add: Process_def Let_def split: sum.splits prod.splits)
  from process_txs_Inl [OF this] obtain pre tx post rs lg g gp st where
    txs: "block_Transactions block = pre @ tx # post" and
    pre: "process_txs ext config block 0 pre
            ([], [], 0, GasLimit (block_Header block), statedb) = Inr (rs, lg, g, gp, st)" and
    step: "process_tx ext config block (0 + length pre) tx (rs, lg, g, gp, st) = Inl (gas, err, st')"
    by (metis prod_cases5)
  from process_txs_Inr [OF pre] have g: "g = sum_list (map GasUsed rs)" by auto
  from process_tx_Inl [OF step]
  show "case err of
        ChainIdNotSet n c \<Rightarrow> gas = None
      | InvalidChainId c c' \<Rightarrow> gas = None
      | Execution e \<Rightarrow>
          (\<exists>pre tx post rs lg g gp st gp' st' g'.
             block_Transactions block = pre @ tx # post \<and>
             process_txs ext config block 0 pre
               ([], [], 0, GasLimit (block_Header block), statedb) = Inr (rs, lg, g, gp, st) \<and>
             check_protected config block tx = (None :: 'e error option) \<and>
             ApplyTransaction ext config gp
               (StartRecord st (tx_Hash tx) (block_Hash block) (length pre))
               (block_Header block) tx g = (Inl e, gp', st', g') \<and>
             gas = Some g \<and> g = sum_list (map GasUsed rs))"
  proof
    assume "check_protected config block tx = Some err \<and> gas = None \<and> st' = st"
    then show ?thesis
      by (cases err)
         (auto simp add: check_protected_def Let_def split: if_splits prod.splits option.splits)
  next
    assume "check_protected config block tx = (None :: 'e error option) \<and>
      (\<exists>e gp' g'.
         ApplyTransaction ext config gp (StartRecord st (tx_Hash tx) (block_Hash block) (0 + length pre))
           (block_Header block) tx g = (Inl e, gp', st', g') \<and>
         err = Execution e \<and> gas = Some g)"
    then obtain e gp' g' where
      c: "check_protected config block tx = (None :: 'e error option)" and
      a: "ApplyTransaction ext config gp (StartRecord st (tx_Hash tx) (block_Hash block) (length pre))
           (block_Header block) tx g = (Inl e, gp', st', g')" and
      e: "err = Execution e" "gas = Some g"
      by auto
    from txs pre c a e(2) g have "\<exists>pre tx post rs lg g gp st gp' st' g'.
             block_Transactions block = pre @ tx # post \<and>
             process_txs ext config block 0 pre
               ([], [], 0, GasLimit (block_Header block), statedb) = Inr (rs, lg, g, gp, st) \<and>
             check_protected config block tx = (None :: 'e error option) \<and>
             ApplyTransaction ext config gp
               (StartRecord st (tx_Hash tx) (block_Hash block) (length pre))
               (block_Header block) tx g = (Inl e, gp', st', g') \<and>
             gas = Some g \<and> g = sum_list (map GasUsed rs)"
      by blast
    with e(1) show ?thesis by simp
  qed
next
  assume "block_Transactions block = pre1 @ tx1 # post1 \<and>
    process_txs ext config block 0 pre1 ([], [], 0, GasLimit (block_Header block), statedb) =
      Inr (rs1, lg1, g1, gp1, st1) \<and>
    check_protected config block tx1 = Some cerr"
  then have t: "block_Transactions block = pre1 @ tx1 # post1"
    and p: "process_txs ext config block 0 pre1
              ([], [], 0, GasLimit (block_Header block), statedb) = Inr (rs1, lg1, g1, gp1, st1)"
    and c: "check_protected config block tx1 = Some cerr"
    by simp_all
  from Process_reach_check_fails [OF t p c]
  have "Process ext config block statedb = (([], [], None, Some cerr), st1)" .
  then show "fst (Process ext config block statedb) = ([], [], None, Some cerr)" by simp
next
  assume a: "block_Transactions block = pre1 @ tx1 # post1 \<and>
    process_txs ext config block 0 pre1 ([], [], 0, GasLimit (block_Header block), statedb) =
      Inr (rs1, lg1, g1, gp1, st1) \<and>
    check_protected config block tx1 = (None :: 'e error option) \<and>
    ApplyTransaction ext config gp1
      (StartRecord st1 (tx_Hash tx1) (block_Hash block) (length pre1))
      (block_Header block) tx1 g1 = (Inl e1, gp2, st2, g2)"
  then have t: "block_Transactions block = pre1 @ tx1 # post1"
    and p: "process_txs ext config block 0 pre1
              ([], [], 0, GasLimit (block_Header block), statedb) = Inr (rs1, lg1, g1, gp1, st1)"
    and c: "check_protected config block tx1 = (None :: 'e error option)"
    and ap: "ApplyTransaction ext config gp1
      (StartRecord st1 (tx_Hash tx1) (block_Hash block) (length pre1))
      (block_Header block) tx1 g1 = (Inl e1, gp2, st2, g2)"
    by simp_all
  from Process_reach_apply_fails(1) [OF t p c ap]
  show "fst (Process ext config block statedb) = ([], [], Some g1, Some (Execution e1))" by simp
  from Process_reach_apply_fails(2) [OF t p c ap]
  show "g1 = sum_list (map GasUsed rs1)" .
qed


theorem Process_error_gas_witness:
  "fst (Process sample_ext sample_config
          (sample_block 100 [sample_tx 13 30000 None True 1] []) sample_state) =
     ([], [], None, Some (InvalidChainId 61 1)) \<and>
   fst (Process sample_ext sample_config
          (sample_block 5 [sample_tx 13 30000 None True 1] []) sample_state) =
     ([], [], None, Some (ChainIdNotSet 5 1)) \<and>
   block_Transactions (sample_block 100 [sample_tx 13 30000 None True 1] []) =
     [] @ sample_tx 13 30000 None True 1 # [] \<and>
   process_txs sample_ext sample_config (sample_block 100 [sample_tx 13 30000 None True 1] []) 0 []
     ([], [], 0, 100000, sample_state) = Inr ([], [], 0, 100000, sample_state) \<and>
   check_protected sample_config (sample_block 100 [sample_tx 13 30000 None True 1] [])
     (sample_tx 13 30000 None True 1) = Some (InvalidChainId 61 1 :: string error) \<and>
   block_Transactions
     (sample_block 100
        [sample_tx 11 21000 (Some 9) False 0, sample_tx 12 90000 None True 61] []) =
     [sample_tx 11 21000 (Some 9) False 0] @ sample_tx 12 90000 None True 61 # [] \<and>
   process_txs sample_ext sample_config
     (sample_block 100
        [sample_tx 11 21000 (Some 9) False 0, sample_tx 12 90000 None True 61] []) 0
     [sample_tx 11 21000 (Some 9) False 0] ([], [], 0, 100000, sample_state) =
     Inr ([(NewReceipt (Bytes 0) 21000)\<lparr>TxHash := 11, GasUsed := 21000\<rparr>], [], 21000, 79000,
          StartRecord sample_state 11 7 0) \<and>
   check_protected sample_config
     (sample_block 100
        [sample_tx 11 21000 (Some 9) False 0, sample_tx 12 90000 None True 61] [])
     (sample_tx 12 90000 None True 61) = (None :: string error option) \<and>
   ApplyTransaction sample_ext sample_config 79000
     (StartRecord (StartRecord sample_state 11 7 0) 12 7 1)
     \<lparr>Number = 100, Coinbase = 1, GasLimit = 100000\<rparr>
     (sample_tx 12 90000 None True 61) 21000 =
     (Inl ''gas limit reached'', 79000, StartRecord (StartRecord sample_state 11 7 0) 12 7 1, 21000) \<and>
   fst (Process sample_ext sample_config
          (sample_block 100
             [sample_tx 11 21000 (Some 9) False 0, sample_tx 12 90000 None True 61] [])
          sample_state) =
     ([], [], Some 21000, Some (Execution ''gas limit reached''))"
proof -
  let ?b1 = "sample_block 100 [sample_tx 13 30000 None True 1] []"
  let ?b2 = "sample_block 5 [sample_tx 13 30000 None True 1] []"
  let ?b3 = "sample_block 100
        [sample_tx 11 21000 (Some 9) False 0, sample_tx 12 90000 None True 61] []"
  have c1: "block_Transactions ?b1 = [] @ sample_tx 13 30000 None True 1 # [] \<and>
     process_txs sample_ext sample_config ?b1 0 []
       ([], [], 0, GasLimit (block_Header ?b1), sample_state) =
       Inr ([], [], 0, 100000, sample_state) \<and>
     check_protected sample_config ?b1 (sample_tx 13 30000 None True 1) =
       Some (InvalidChainId 61 1 :: string error)"
    by (simp add: sample_defs)
  have c2: "block_Transactions ?b2 = [] @ sample_tx 13 30000 None True 1 # [] \<and>
     process_txs sample_ext sample_config ?b2 0 []
       ([], [], 0, GasLimit (block_Header ?b2), sample_state) =
       Inr ([], [], 0, 100000, sample_state) \<and>
     check_protected sample_config ?b2 (sample_tx 13 30000 None True 1) =
       Some (ChainIdNotSet 5 1 :: string error)"
    by (simp add: sample_defs)
  have c3: "block_Transactions ?b3 =
       [sample_tx 11 21000 (Some 9) False 0] @ sample_tx 12 90000 None True 61 # [] \<and>
     process_txs sample_ext sample_config ?b3 0 [sample_tx 11 21000 (Some 9) False 0]
       ([], [], 0, GasLimit (block_Header ?b3), sample_state) =
       Inr ([(NewReceipt (Bytes 0) 21000)\<lparr>TxHash := 11, GasUsed := 21000\<rparr>], [], 21000, 79000,
            StartRecord sample_state 11 7 0) \<and>
     check_protected sample_config ?b3 (sample_tx 12 90000 None True 61) =
       (None :: string error option) \<and>
     ApplyTransaction sample_ext sample_config 79000
       (StartRecord (StartRecord sample_state 11 7 0) (tx_Hash (sample_tx 12 90000 None True 61))
          (block_Hash ?b3) (length [sample_tx 11 21000 (Some 9) False 0]))
       (block_Header ?b3) (sample_tx 12 90000 None True 61) 21000 =
       (Inl ''gas limit reached'', 79000, StartRecord (StartRecord sample_state 11 7 0) 12 7 1,
        21000)"
    by (simp add: sample_defs)
  from c1 Process_error_gas
         [where ext = sample_ext and config = sample_config and block = ?b1
            and statedb = sample_state and ?pre1.0 = "[]"
            and ?tx1.0 = "sample_tx 13 30000 None True 1" and ?post1.0 = "[]"
            and ?rs1.0 = "[]" and ?lg1.0 = "[]" and ?g1.0 = 0 and ?gp1.0 = 100000
            and ?st1.0 = sample_state and cerr = "InvalidChainId 61 1"]
  have r1: "fst (Process sample_ext sample_config ?b1 sample_state) =
      ([], [], None, Some (InvalidChainId 61 1))"
    by blast
  from c2 Process_error_gas
         [where ext = sample_ext and config = sample_config and block = ?b2
            and statedb = sample_state and ?pre1.0 = "[]"
            and ?tx1.0 = "sample_tx 13 30000 None True 1" and ?post1.0 = "[]"
            and ?rs1.0 = "[]" and ?lg1.0 = "[]" and ?g1.0 = 0 and ?gp1.0 = 100000
            and ?st1.0 = sample_state and cerr = "ChainIdNotSet 5 1"]
  have r2: "fst (Process sample_ext sample_config ?b2 sample_state) =
      ([], [], None, Some (ChainIdNotSet 5 1))"
    by blast
  from c3 Process_error_gas
         [where ext = sample_ext and config = sample_config and block = ?b3
            and statedb = sample_state and ?pre1.0 = "[sample_tx 11 21000 (Some 9) False 0]"
            and ?tx1.0 = "sample_tx 12 90000 None True 61" and ?post1.0 = "[]"
            and ?rs1.0 = "[(NewReceipt (Bytes 0) 21000)\<lparr>TxHash := 11, GasUsed := 21000\<rparr>]"
            and ?lg1.0 = "[]" and ?g1.0 = 21000 and ?gp1.0 = 79000
            and ?st1.0 = "StartRecord sample_state 11 7 0" and ?e1.0 = "''gas limit reached''"
            and ?gp2.0 = 79000 and ?st2.0 = "StartRecord (StartRecord sample_state 11 7 0) 12 7 1"
            and ?g2.0 = 21000]
  have r3: "fst (Process sample_ext sample_config ?b3 sample_state) =
      ([], [], Some 21000, Some (Execution ''gas limit reached''))"
    by blast
  from r1 r2 r3 c1 c3 show ?thesis by (simp add: sample_block_def sample_tx_def)
qed


text \<open>
  Claim C4, amended.  Let a protected transaction \<open>tx\<close> of the block carry a chain
  identifier other than the one the rule \<open>eip155\<close> requires at the block's number.  Then
  \<open>Process\<close> returns an error and nil receipts and logs.  If the loop has processed the
  transactions before \<open>tx\<close> without error, the error is a validation error naming the
  chain identifier of \<open>tx\<close>, and the state is as the transactions before \<open>tx\<close> left it:
  neither \<open>tx\<close> nor any later transaction is processed.  The other identifier the error
  names is the one the rule requires whenever \<open>GetChainID\<close> of the configuration returns
  that identifier.
\<close>

theorem Process_invalid_chain_id:
  fixes ext :: "('s, 'e) Collaborators"
  shows
  "tx_Protected tx \<and>
   GetFeature config (Number (block_Header block)) ''eip155'' = (feat, True) \<and>
   GetBigInt feat ''chainID'' = Some chainId \<and>
   tx_ChainId tx \<noteq> chainId \<longrightarrow>
   (tx \<in> set (block_Transactions block) \<longrightarrow>
      (\<exists>gas err st'. Process ext config block statedb = (([], [], gas, Some err), st'))) \<and>
   (block_Transactions block = pre @ tx # post \<and>
    process_txs ext config block 0 pre ([], [], 0, GasLimit (block_Header block), statedb) =
      Inr (rs, lg, g, gp, st) \<longrightarrow>
      (\<exists>c. Process ext config block statedb =
             (([], [], None, Some (InvalidChainId c (tx_ChainId tx))), st)) \<and>
      (GetChainID config = chainId \<longrightarrow>
         Process ext config block statedb =
           (([], [], None, Some (InvalidChainId chainId (tx_ChainId tx))), st)))"
proof (intro impI conjI)
  assume a: "tx_Protected tx \<and>
   GetFeature config (Number (block_Header block)) ''eip155'' = (feat, True) \<and>
   GetBigInt feat ''chainID'' = Some chainId \<and>
   tx_ChainId tx \<noteq> chainId"
  then have c: "check_protected config block tx =
      Some (InvalidChainId (GetChainID config) (tx_ChainId tx) :: 'e error)"
    by (simp add: check_protected_mismatch)
  show "\<exists>gas err st'. Process ext config block statedb = (([], [], gas, Some err), st')"
    if "tx \<in> set (block_Transactions block)"
    using that c by (rule Process_check_fails)
  assume b: "block_Transactions block = pre @ tx # post \<and>
    process_txs ext config block 0 pre ([], [], 0, GasLimit (block_Header block), statedb) =
      Inr (rs, lg, g, gp, st)"
  then have t: "block_Transactions block = pre @ tx # post"
    and p: "process_txs ext config block 0 pre
              ([], [], 0, GasLimit (block_Header block), statedb) = Inr (rs, lg, g, gp, st)"
    by simp_all
  from Process_reach_check_fails [OF t p c]
  have r: "Process ext config block statedb =
      (([], [], None, Some (InvalidChainId (GetChainID config) (tx_ChainId tx))), st)" .
  then show "\<exists>c. Process ext config block statedb =
             (([], [], None, Some (InvalidChainId c (tx_ChainId tx))), st)"
    by (rule exI)
  from r show "Process ext config block statedb =
           (([], [], None, Some (InvalidChainId chainId (tx_ChainId tx))), st)"
    if "GetChainID config = chainId"
    using that by simp
qed

theorem Process_invalid_chain_id_witness:
  "tx_Protected (sample_tx 13 30000 None True 1) \<and>
   GetFeature sample_config (Number (block_Header
     (sample_block 100
        [sample_tx 11 21000 (Some 9) False 0, sample_tx 13 30000 None True 1,
         sample_tx 12 30000 None True 61] []))) ''eip155'' =
     ([''chainID'' \<mapsto> 61], True) \<and>
   GetBigInt [''chainID'' \<mapsto> 61] ''chainID'' = Some 61 \<and>
   tx_ChainId (sample_tx 13 30000 None True 1) \<noteq> 61 \<and>
   GetChainID sample_config = 61 \<and>
   sample_tx 13 30000 None True 1 \<in> set (block_Transactions
     (sample_block 100
        [sample_tx 11 21000 (Some 9) False 0, sample_tx 13 30000 None True 1,
         sample_tx 12 30000 None True 61] [])) \<and>
   block_Transactions
     (sample_block 100
        [sample_tx 11 21000 (Some 9) False 0, sample_tx 13 30000 None True 1,
         sample_tx 12 30000 None True 61] []) =
     [sample_tx 11 21000 (Some 9) False 0] @ sample_tx 13 30000 None True 1 #
     [sample_tx 12 30000 None True 61] \<and>
   process_txs sample_ext sample_config
     (sample_block 100
        [sample_tx 11 21000 (Some 9) False 0, sample_tx 13 30000 None True 1,
         sample_tx 12 30000 None True 61] []) 0
     [sample_tx 11 21000 (Some 9) False 0] ([], [], 0, 100000, sample_state) =
     Inr ([(NewReceipt (Bytes 0) 21000)\<lparr>TxHash := 11, GasUsed := 21000\<rparr>], [], 21000, 79000,
          StartRecord sample_state 11 7 0) \<and>
   Process sample_ext sample_config
     (sample_block 100
        [sample_tx 11 21000 (Some 9) False 0, sample_tx 13 30000 None True 1,
         sample_tx 12 30000 None True 61] []) sample_state =
     (([], [], None, Some (InvalidChainId 61 1)), StartRecord sample_state 11 7 0)"
proof -
  let ?b = "(sample_block 100
        [sample_tx 11 21000 (Some 9) False 0, sample_tx 13 30000 None True 1,
         sample_tx 12 30000 None True 61] [])"
  let ?tx = "sample_tx 13 30000 None True 1"
  have h0: "tx_Protected ?tx \<and>
     GetFeature sample_config (Number (block_Header ?b)) ''eip155'' =
       ([''chainID'' \<mapsto> 61], True) \<and>
     GetBigInt [''chainID'' \<mapsto> 61] ''chainID'' = Some 61 \<and>
     tx_ChainId ?tx \<noteq> 61"
    by (simp add: sample_defs)
  have h1: "block_Transactions ?b =
     [sample_tx 11 21000 (Some 9) False 0] @ ?tx # [sample_tx 12 30000 None True 61] \<and>
     process_txs sample_ext sample_config ?b 0
       [sample_tx 11 21000 (Some 9) False 0] ([], [], 0, GasLimit (block_Header ?b), sample_state) =
     Inr ([(NewReceipt (Bytes 0) 21000)\<lparr>TxHash := 11, GasUsed := 21000\<rparr>], [], 21000, 79000,
          StartRecord sample_state 11 7 0)"
    by (simp add: sample_defs)
  have h2: "?tx \<in> set (block_Transactions ?b)"
    by (simp add: sample_block_def)
  have h3: "GetChainID sample_config = 61"
    by (simp add: sample_config_def)
  from Process_invalid_chain_id
         [where tx = ?tx and config = sample_config and block = ?b
            and feat = "[''chainID'' \<mapsto> 61]" and chainId = 61 and ext = sample_ext
            and statedb = sample_state and pre = "[sample_tx 11 21000 (Some 9) False 0]"
            and post = "[sample_tx 12 30000 None True 61]"
            and rs = "[(NewReceipt (Bytes 0) 21000)\<lparr>TxHash := 11, GasUsed := 21000\<rparr>]"
            and lg = "[]" and g = 21000 and gp = 79000 and st = "StartRecord sample_state 11 7 0"]
       h0 h1 h3
  have "Process sample_ext sample_config ?b sample_state =
     (([], [], None, Some (InvalidChainId 61 1)), StartRecord sample_state 11 7 0)"
    by (simp add: sample_tx_def)
  with h0 h1 h2 h3 show ?thesis by (simp add: sample_defs)
qed

text \<open>
  Claim C4 as stated fails on two inputs.  In the first a transaction before the protected
  one fails in the applier: the block is aborted there, with the error of the applier and
  the gas accumulated so far, and the identifiers are never compared.  In the second the
  configuration reports the chain identifier 99 through \<open>GetChainID\<close> while the rule requires
  61 at the block's number: the error names 99 and the identifier 1 of the transaction,
  not the required identifier it was compared with.
\<close>

theorem Process_invalid_chain_id_counterexample:
  "sample_tx 13 30000 None True 1 \<in> set (block_Transactions
     (sample_block 100
        [sample_tx 11 200000 (Some 9) False 0, sample_tx 13 30000 None True 1] [])) \<and>
   tx_Protected (sample_tx 13 30000 None True 1) \<and>
   GetFeature sample_config (Number (block_Header
     (sample_block 100
        [sample_tx 11 200000 (Some 9) False 0, sample_tx 13 30000 None True 1] []))) ''eip155'' =
     ([''chainID'' \<mapsto> 61], True) \<and>
   GetBigInt [''chainID'' \<mapsto> 61] ''chainID'' = Some 61 \<and>
   tx_ChainId (sample_tx 13 30000 None True 1) \<noteq> 61 \<and>
   fst (Process sample_ext sample_config
     (sample_block 100
        [sample_tx 11 200000 (Some 9) False 0, sample_tx 13 30000 None True 1] []) sample_state) =
     ([], [], Some 0, Some (Execution ''gas limit reached'')) \<and>
   GetFeature (sample_config\<lparr>GetChainID := 99\<rparr>) (Number (block_Header
     (sample_block 100 [sample_tx 13 30000 None True 1] []))) ''eip155'' =
     ([''chainID'' \<mapsto> 61], True) \<and>
   fst (Process sample_ext (sample_config\<lparr>GetChainID := 99\<rparr>)
     (sample_block 100 [sample_tx 13 30000 None True 1] []) sample_state) =
     ([], [], None, Some (InvalidChainId 99 1))"
  by (simp add: sample_defs)

end
